theory Spec2Isabelle
  imports Main "HOL-Library.Sublist" "HOL-Library.Log_Nat"
begin

section \<open>JavaScript string operations used by the server\<close>

text \<open>
  Strings are byte strings (\<^typ>\<open>string\<close>); the subject, mood and template texts of the
  pipeline are modelled on ASCII, where \<open>toLowerCase\<close> maps \<open>A..Z\<close> to \<open>a..z\<close> and leaves every
  other character alone, and where the white space removed by \<open>trim\<close> is the characters
  9 to 13 and 32.
\<close>

definition lower_char :: "char \<Rightarrow> char" where
  "lower_char c =
     (let n = (of_char c :: nat) in if 65 \<le> n \<and> n \<le> 90 then char_of (n + 32) else c)"

definition toLowerCase :: "string \<Rightarrow> string" where
  "toLowerCase s = map lower_char s"

text \<open>\<open>s.includes(pat)\<close>: \<open>pat\<close> occurs in \<open>s\<close> as a contiguous substring.\<close>

fun str_includes :: "string \<Rightarrow> string \<Rightarrow> bool" where
  "str_includes [] pat = (pat = [])"
| "str_includes (c # cs) pat = (prefix pat (c # cs) \<or> str_includes cs pat)"

text \<open>\<open>s.startsWith(pat)\<close>.\<close>

definition startsWith :: "string \<Rightarrow> string \<Rightarrow> bool" where
  "startsWith s pat = prefix pat s"

text \<open>\<open>s.indexOf(pat)\<close>, with \<open>None\<close> for JavaScript's \<open>-1\<close>.\<close>

fun indexOf :: "string \<Rightarrow> string \<Rightarrow> nat option" where
  "indexOf [] pat = (if pat = [] then Some 0 else None)"
| "indexOf (c # cs) pat =
     (if prefix pat (c # cs) then Some 0 else map_option Suc (indexOf cs pat))"

text \<open>
  The replacement text of \<open>String.prototype.replace\<close> with a string pattern: \<open>$$\<close> stands
  for a dollar sign, \<open>$&\<close> for the matched text, \<open>$`\<close> for the text before the match and
  \<open>$'\<close> for the text after it; a string pattern has no capture groups, so every other
  character sequence stands for itself.
\<close>

fun getSubstitution :: "string \<Rightarrow> string \<Rightarrow> string \<Rightarrow> string \<Rightarrow> string" where
  "getSubstitution matched pre post [] = []"
| "getSubstitution matched pre post [c] = [c]"
| "getSubstitution matched pre post (c # d # r) =
     (if c = CHR ''$'' \<and> d = CHR ''$'' then CHR ''$'' # getSubstitution matched pre post r
      else if c = CHR ''$'' \<and> d = CHR ''&'' then matched @ getSubstitution matched pre post r
      else if c = CHR ''$'' \<and> d = CHR 0x60 then pre @ getSubstitution matched pre post r
      else if c = CHR ''$'' \<and> d = CHR 0x27 then post @ getSubstitution matched pre post r
      else c # getSubstitution matched pre post (d # r))"

text \<open>\<open>s.replace(pat, rep)\<close> with a string pattern: only the first occurrence is replaced.\<close>

definition str_replace :: "string \<Rightarrow> string \<Rightarrow> string \<Rightarrow> string" where
  "str_replace s pat rep =
     (case indexOf s pat of
        None \<Rightarrow> s
      | Some i \<Rightarrow>
          (let pre = take i s; post = drop (i + length pat) s
           in pre @ getSubstitution pat pre post rep @ post))"

definition is_space :: "char \<Rightarrow> bool" where
  "is_space c = (let n = (of_char c :: nat) in (9 \<le> n \<and> n \<le> 13) \<or> n = 32)"

definition trim :: "string \<Rightarrow> string" where
  "trim s = rev (dropWhile is_space (rev (dropWhile is_space s)))"

definition newline :: char where
  "newline = CHR 0x0A"

text \<open>\<open>s.split('\n')\<close>: the empty string splits into one empty piece.\<close>

fun split_lines :: "string \<Rightarrow> string list" where
  "split_lines [] = ['''']"
| "split_lines (c # cs) =
     (if c = newline then '''' # split_lines cs
      else (case split_lines cs of
              [] \<Rightarrow> [c] # []
            | l # ls \<Rightarrow> (c # l) # ls))"

text \<open>\<open>xs.join('\n')\<close>.\<close>

fun join_lines :: "string list \<Rightarrow> string" where
  "join_lines [] = ''''"
| "join_lines [l] = l"
| "join_lines (l # m # ls) = l @ newline # join_lines (m # ls)"

section \<open>Errors\<close>

text \<open>
  Every \<open>throw\<close> and every rejected promise of the pipeline is a value of this type.
  \<open>NoVideosFound\<close> is the error "Could not find any videos related to ..." of the
  orchestrator; the constructors with a string carry the message of the external call that
  failed.
\<close>

datatype error =
    TypeError
  | PexelsKeyMissing
  | AllAiProvidersFailed
  | AiProviderError string
  | ScriptTooShort
  | NoVideosFound string
  | VoiceoverFailed string
  | RenderError string

section \<open>Script synthesizer (\<open>generateEnhancedScript\<close>)\<close>

text \<open>
  The script lines are JavaScript template literals. A template is the list of its parts:
  literal text and the interpolation \<open>${productName}\<close>; evaluating the literal concatenates
  the parts with the product name in place of the interpolation.
\<close>

datatype part = Lit string | ProductName

type_synonym template = "part list"

fun eval_part :: "string \<Rightarrow> part \<Rightarrow> string" where
  "eval_part productName (Lit s) = s"
| "eval_part productName ProductName = productName"

definition eval_template :: "string \<Rightarrow> template \<Rightarrow> string" where
  "eval_template productName t = concat (map (eval_part productName) t)"

definition funny_beauty :: "template list" where
  "funny_beauty =
   [ [Lit (''LINE: My skin said 'who dis new phone?'' @ [CHR 0x27])],
    [Lit ''LINE: '', ProductName, Lit '' literally broke my mirror''],
    [Lit ''LINE: I'm glowing like a lightbulb now''],
    [Lit ''LINE: My friends think I got surgery''],
    [Lit ''LINE: Plot twist it actually works besties''],
    [Lit ''LINE: The glow up is absolutely unreal''],
    [Lit ''LINE: I'm basically a walking highlighter''],
    [Lit ''LINE: My confidence said thank you queen''],
    [Lit ''LINE: Your skin deserves this magic potion''],
    [Lit ''LINE: Don't walk RUN to get this'']]"

definition funny_tech :: "template list" where
  "funny_tech =
   [ [Lit ''LINE: This gadget broke my brain cells''],
    [Lit ''LINE: '', ProductName, Lit '' is from the year 3000''],
    [Lit ''LINE: My life just got a software update''],
    [Lit ''LINE: Why didn't anyone tell me sooner''],
    [Lit ''LINE: It's like having a personal robot''],
    [Lit ''LINE: My productivity went absolutely crazy''],
    [Lit ''LINE: Everyone's asking what my secret is''],
    [Lit ''LINE: This is not a drill people''],
    [Lit ''LINE: Your life needs this upgrade badly''],
    [Lit ''LINE: Trust me and thank me later'']]"

definition funny_fashion :: "template list" where
  "funny_fashion =
   [ [Lit ''LINE: This outfit said pick me''],
    [Lit ''LINE: '', ProductName, Lit '' is absolutely iconic''],
    [Lit ''LINE: I'm serving looks and confidence''],
    [Lit ''LINE: People can't stop staring honestly''],
    [Lit ''LINE: My style game just leveled up''],
    [Lit ''LINE: The compliments are getting ridiculous''],
    [Lit ''LINE: I feel like a main character''],
    [Lit ''LINE: This is my new personality''],
    [Lit ''LINE: You need this in your life''],
    [Lit ''LINE: Get it before everyone else does'']]"

definition funny_food :: "template list" where
  "funny_food =
   [ [Lit ''LINE: This taste transported my soul''],
    [Lit ''LINE: '', ProductName, Lit '' just changed my life''],
    [Lit ''LINE: I'm emotionally attached to this now''],
    [Lit ''LINE: My taste buds are having a party''],
    [Lit ''LINE: I bought ten more immediately''],
    [Lit ''LINE: This is my new obsession officially''],
    [Lit ''LINE: I can't eat anything else''],
    [Lit ''LINE: My friends steal this constantly''],
    [Lit ''LINE: You haven't lived until you try''],
    [Lit ''LINE: Order it right now seriously'']]"

definition exciting_beauty :: "template list" where
  "exciting_beauty =
   [ [Lit ''LINE: '', ProductName, Lit '' is absolutely life changing''],
    [Lit ''LINE: Results in just seven days guaranteed''],
    [Lit ''LINE: My skin transformation is completely insane''],
    [Lit ''LINE: The glow is totally unreal''],
    [Lit ''LINE: Everyone keeps asking my secret routine''],
    [Lit ''LINE: This revolutionized my entire skincare''],
    [Lit ''LINE: The before and after shocked everyone''],
    [Lit ''LINE: I cannot believe the dramatic difference''],
    [Lit ''LINE: Your skin will thank you forever''],
    [Lit ''LINE: Get yours now before complete sellout'']]"

definition exciting_tech :: "template list" where
  "exciting_tech =
   [ [Lit ''LINE: '', ProductName, Lit '' is revolutionary technology''],
    [Lit ''LINE: This will change everything completely''],
    [Lit ''LINE: The performance is absolutely mind blowing''],
    [Lit ''LINE: I'm getting incredible results daily''],
    [Lit ''LINE: This solved all my problems''],
    [Lit ''LINE: The speed improvement is unreal''],
    [Lit ''LINE: Everyone needs this in their life''],
    [Lit ''LINE: This is the future right now''],
    [Lit ''LINE: Don't miss out on this game changer''],
    [Lit ''LINE: Order immediately while still available'']]"

definition trendy_default :: "template list" where
  "trendy_default =
   [ [Lit ''LINE: POV you found the holy grail''],
    [Lit ''LINE: '', ProductName, Lit '' hits different bestie''],
    [Lit ''LINE: This is giving main character energy''],
    [Lit ''LINE: The vibe check is absolutely unmatched''],
    [Lit ''LINE: Everyone's copying my aesthetic now''],
    [Lit ''LINE: My confidence just leveled up significantly''],
    [Lit ''LINE: This is not a want it's definitely need''],
    [Lit ''LINE: The compliments keep flowing in daily''],
    [Lit ''LINE: Trust the process and trust me''],
    [Lit ''LINE: Link in bio before it's gone'']]"

definition luxurious_default :: "template list" where
  "luxurious_default =
   [ [Lit ''LINE: '', ProductName, Lit '' is pure luxury experience''],
    [Lit ''LINE: Quality that speaks for itself''],
    [Lit ''LINE: This is investment in yourself''],
    [Lit ''LINE: The craftsmanship is absolutely impeccable''],
    [Lit ''LINE: You deserve this level of excellence''],
    [Lit ''LINE: This elevates your entire lifestyle''],
    [Lit ''LINE: Premium quality meets perfect design''],
    [Lit ''LINE: This is what success looks like''],
    [Lit ''LINE: Treat yourself like royalty today''],
    [Lit ''LINE: Experience luxury that lasts lifetime'']]"

text \<open>
  The object \<open>viralScripts\<close> before its template literals are evaluated: mood, then category,
  then the ten lines. Association lists stand for the object literals.
\<close>

definition viralTemplates :: "(string \<times> (string \<times> template list) list) list" where
  "viralTemplates =
   [(''funny'', [(''beauty'', funny_beauty), (''tech'', funny_tech),
                 (''fashion'', funny_fashion), (''food'', funny_food)]),
    (''exciting'', [(''beauty'', exciting_beauty), (''tech'', exciting_tech)]),
    (''trendy'', [(''default'', trendy_default)]),
    (''luxurious'', [(''default'', luxurious_default)])]"

text \<open>\<open>viralScripts\<close> as the function builds it for one call: every literal evaluated.\<close>

definition viralScripts :: "string \<Rightarrow> (string \<times> (string \<times> string list) list) list" where
  "viralScripts productName =
     map (\<lambda>(mood, cats).
            (mood, map (\<lambda>(cat, ls). (cat, map (eval_template productName) ls)) cats))
         viralTemplates"

text \<open>The product category: the first keyword group with a hit wins.\<close>

definition category :: "string \<Rightarrow> string" where
  "category productName =
     (let product = toLowerCase productName in
      if str_includes product ''serum'' \<or> str_includes product ''cream'' \<or>
         str_includes product ''skincare'' \<or> str_includes product ''beauty'' \<or>
         str_includes product ''glow'' \<or> str_includes product ''face'' then ''beauty''
      else if str_includes product ''tech'' \<or> str_includes product ''gadget'' \<or>
         str_includes product ''phone'' \<or> str_includes product ''laptop'' \<or>
         str_includes product ''device'' then ''tech''
      else if str_includes product ''clothes'' \<or> str_includes product ''dress'' \<or>
         str_includes product ''shirt'' \<or> str_includes product ''fashion'' \<or>
         str_includes product ''style'' then ''fashion''
      else if str_includes product ''food'' \<or> str_includes product ''snack'' \<or>
         str_includes product ''drink'' \<or> str_includes product ''recipe'' \<or>
         str_includes product ''meal'' then ''food''
      else ''default'')"

text \<open>
  \<open>a || b\<close> on values that are either an object (truthy) or \<open>undefined\<close>.
\<close>

definition or_else :: "'a option \<Rightarrow> 'a option \<Rightarrow> 'a option" where
  "or_else a b = (case a of Some x \<Rightarrow> Some x | None \<Rightarrow> b)"

text \<open>
  \<open>moodScripts = viralScripts[mood.toLowerCase()] || viralScripts.trendy\<close>. A mood that names
  a property every object inherits (such as \<open>constructor\<close>) selects an object without any of
  the five category keys, for which the next line ends at \<open>viralScripts.trendy.default\<close>, as it
  does from \<open>viralScripts.trendy\<close>; the lookup in the four own keys gives the same script.
\<close>

definition moodScripts :: "string \<Rightarrow> string \<Rightarrow> (string \<times> string list) list" where
  "moodScripts productName mood =
     (case or_else (map_of (viralScripts productName) (toLowerCase mood))
                   (map_of (viralScripts productName) ''trendy'') of
        Some ms \<Rightarrow> ms
      | None \<Rightarrow> [])"

text \<open>
  \<open>selectedScript = moodScripts[category] || moodScripts.default || viralScripts.trendy.default\<close>.
\<close>

definition selectedScript :: "string \<Rightarrow> string \<Rightarrow> string list" where
  "selectedScript productName mood =
     (let ms = moodScripts productName mood in
      case or_else (or_else (map_of ms (category productName)) (map_of ms ''default''))
                   (map_of (moodScripts productName ''trendy'') ''default'') of
        Some ls \<Rightarrow> ls
      | None \<Rightarrow> [])"

definition placeholder :: string where
  "placeholder = ''${productName}''"

text \<open>\<open>selectedScript.map(line => line.replace('${productName}', productName))\<close>.\<close>

definition scriptLines :: "string \<Rightarrow> string \<Rightarrow> string list" where
  "scriptLines productName mood =
     map (\<lambda>line. str_replace line placeholder productName) (selectedScript productName mood)"

text \<open>
  The function itself: \<open>mood.toLowerCase()\<close> throws a \<open>TypeError\<close> when the request carries
  no mood; otherwise the lines are joined by line feeds. The language argument is unused.
\<close>

definition generateEnhancedScript :: "string \<Rightarrow> string option \<Rightarrow> error + string" where
  "generateEnhancedScript productName mood =
     (case mood of
        None \<Rightarrow> Inl TypeError
      | Some m \<Rightarrow> Inr (join_lines (scriptLines productName m)))"

text \<open>
  The orchestrator's parse of the script: split at line feeds, keep the lines that start
  with \<open>LINE:\<close>, drop that tag and the surrounding white space, keep at most ten.
\<close>

definition textOverlays :: "string \<Rightarrow> string list" where
  "textOverlays fullScript =
     take 10 (map (\<lambda>line. trim (str_replace line ''LINE:'' ''''))
                  (filter (\<lambda>line. startsWith line ''LINE:'') (split_lines fullScript)))"

text \<open>
  The selection of \<open>generateEnhancedScript\<close> carried out on the templates before they are
  evaluated: it names the template each returned line comes from. Lemma
  \<open>selectedScript_eval\<close> shows that \<open>selectedScript\<close> is its evaluation.
\<close>

definition moodTemplates :: "string \<Rightarrow> (string \<times> template list) list" where
  "moodTemplates mood =
     (case or_else (map_of viralTemplates (toLowerCase mood)) (map_of viralTemplates ''trendy'') of
        Some ms \<Rightarrow> ms
      | None \<Rightarrow> [])"

definition selectedTemplate :: "string \<Rightarrow> string \<Rightarrow> template list" where
  "selectedTemplate productName mood =
     (let ms = moodTemplates mood in
      case or_else (or_else (map_of ms (category productName)) (map_of ms ''default''))
                   (map_of (moodTemplates ''trendy'') ''default'') of
        Some ls \<Rightarrow> ls
      | None \<Rightarrow> [])"

section \<open>JavaScript numbers\<close>

text \<open>
  A JavaScript number is an IEEE 754 binary64 value. A finite one is written here as a pair
  \<open>(m, e)\<close> of integers that stands for \<open>m * 2^e\<close>. An arithmetic operation returns the exact
  result rounded to the nearest value with a 53 bit significand, ties going to the even
  significand.
\<close>

type_synonym binary64 = "int \<times> int"

definition value_of :: "binary64 \<Rightarrow> rat" where
  "value_of x =
     (case x of (m, e) \<Rightarrow> if 0 \<le> e then of_int m * 2 ^ nat e else of_int m / 2 ^ nat (- e))"

text \<open>
  \<open>round_ratio a b k\<close> is the binary64 value nearest to \<open>(a / b) * 2^k\<close>, for \<open>b\<close> positive
  and a result in the normal range (magnitude from \<open>2^-1022\<close> and below \<open>2^1024\<close>), which
  covers every duration computed here. \<open>e\<close> is the binary exponent of \<open>a / b\<close>, and \<open>q\<close> and
  \<open>r\<close> are quotient and remainder of the division that yields 53 bits.
\<close>

definition round_ratio :: "int \<Rightarrow> int \<Rightarrow> int \<Rightarrow> binary64" where
  "round_ratio a b k =
     (if a = 0 then (0, 0)
      else
        let n = \<bar>a\<bar>;
            e0 = bitlen n - bitlen b;
            e = (if (if 0 \<le> e0 then b * 2 ^ nat e0 \<le> n else b \<le> n * 2 ^ nat (- e0))
                 then e0 else e0 - 1);
            s = 52 - e;
            num = (if 0 \<le> s then n * 2 ^ nat s else n);
            den = (if 0 \<le> s then b else b * 2 ^ nat (- s));
            q = num div den;
            r = num mod den;
            m = (if 2 * r < den then q else if den < 2 * r then q + 1
                 else if even q then q else q + 1)
        in (sgn a * m, k - s))"

text \<open>\<open>x / y\<close> for \<open>y\<close> other than zero, \<open>x + y\<close>, and a natural number as a JavaScript number.\<close>

definition js_div :: "binary64 \<Rightarrow> binary64 \<Rightarrow> binary64" where
  "js_div x y =
     (case (x, y) of
        ((m1, e1), (m2, e2)) \<Rightarrow> round_ratio (sgn m2 * m1) \<bar>m2\<bar> (e1 - e2))"

definition js_add :: "binary64 \<Rightarrow> binary64 \<Rightarrow> binary64" where
  "js_add x y =
     (case (x, y) of
        ((m1, e1), (m2, e2)) \<Rightarrow>
          if m1 = 0 then y
          else if m2 = 0 then x
          else
            (let e = min e1 e2
             in round_ratio (m1 * 2 ^ nat (e1 - e) + m2 * 2 ^ nat (e2 - e)) 1 e))"

definition js_nat :: "nat \<Rightarrow> binary64" where
  "js_nat n = (int n, 0)"

text \<open>A natural number in decimal, as a template literal prints it.\<close>

fun decimal :: "nat \<Rightarrow> string" where
  "decimal n =
     (if n < 10 then [char_of (48 + n)]
      else decimal (n div 10) @ [char_of (48 + n mod 10)])"

declare decimal.simps [simp del]

text \<open>\<open>path.join(dir, name)\<close> for a directory and a plain file name, on POSIX.\<close>

definition path_join :: "string \<Rightarrow> string \<Rightarrow> string" where
  "path_join dir name = dir @ ''/'' @ name"

text \<open>
  Truthiness of a value that is a string, \<open>null\<close> or \<open>undefined\<close>: only a string that is
  not empty is truthy.
\<close>

definition truthy :: "string option \<Rightarrow> bool" where
  "truthy v = (case v of None \<Rightarrow> False | Some s \<Rightarrow> s \<noteq> '''')"

section \<open>External collaborators and the state of a run\<close>

text \<open>
  A candidate of the video search: its duration in seconds and its encodings, each with a
  quality tag and a download link. \<open>video_files\<close> is \<open>None\<close> when the candidate carries no such
  field, \<open>link\<close> is \<open>None\<close> when the encoding has none.
\<close>

record video_file =
  quality :: string
  link :: "string option"

record video =
  video_id :: nat
  duration :: int
  video_files :: "video_file list option"

text \<open>
  The processing graph handed to the transcoder. Each constructor stands for one entry of
  \<open>complexFilter\<close>:
  \<^item> \<open>VideoSegment i d\<close> is
    \<open>[i:v]scale=1080:1920:force_original_aspect_ratio=increase,crop=1080:1920,setsar=1,trim=duration=d,setpts=PTS-STARTPTS[vi]\<close>;
  \<^item> \<open>Concat n\<close> is \<open>[v0]...[v(n-1)]concat=n=n:v=1:a=0[outv]\<close>;
  \<^item> \<open>AudioTrack k g d l\<close> is \<open>[k:a]volume=g,atrim=duration=d[l]\<close>, the gain \<open>g\<close> being
    the decimal written in the filter text;
  \<^item> \<open>Amix ins m l\<close> is \<open>[voice][music]amix=inputs=2:duration=m[l]\<close> for the input labels \<open>ins\<close>.
\<close>

datatype filter =
    VideoSegment nat binary64
  | Concat nat
  | AudioTrack nat rat nat string
  | Amix "string list" string string

text \<open>
  What a run does to the outside world, in order. The answers of the external services may
  depend on everything that happened before, so each service is a function of the number of
  earlier events as well as of its arguments.
\<close>

datatype event =
    AiRequest string
  | SearchRequest string
  | SpeechRequest string string
  | DownloadRequest string
  | TranscoderRun "string list" "filter list" "string list"

record world =
  trace :: "event list"
  disk :: "string set"

definition log_event :: "event \<Rightarrow> world \<Rightarrow> world" where
  "log_event e w = w\<lparr>trace := trace w @ [e]\<rparr>"

text \<open>
  The environment of the server: its configuration and the services it calls. A service
  answers \<open>Inl message\<close> when the call throws or the promise rejects.
  \<^item> \<open>pexelsApiKey\<close>: the environment variable, \<open>None\<close> when unset;
  \<^item> \<open>googleModel\<close>, \<open>openai\<close>: the two text generators, the second one optional;
  \<^item> \<open>pexelsSearch\<close>: the search request for a query (portrait, 20 per page, duration 8 to 40);
    its answer is the field \<open>videos\<close> of the response, \<open>None\<close> when the field is missing;
  \<^item> \<open>elevenLabs\<close>: speech synthesis for a text and a voice, including the write of the file;
  \<^item> \<open>httpGet\<close>: the download of a clip, including the write of the file;
  \<^item> \<open>ffmpegRun\<close>: the transcoder run, \<open>None\<close> for its \<open>end\<close> event and \<open>Some message\<close> for
    its \<open>error\<close> event;
  \<^item> \<open>unlinkFails\<close>: the files whose deletion is rejected;
  \<^item> \<open>musicDir\<close>: the listing of the music directory, \<open>None\<close> when it does not exist;
  \<^item> \<open>randomDraw\<close>: the random choice among the music files;
  \<^item> \<open>now\<close>: the clock; \<open>tmpdir\<close>, \<open>dirname\<close>: the two directories.
\<close>

record env =
  pexelsApiKey :: "string option"
  googleModel :: "nat \<Rightarrow> string \<Rightarrow> string + string"
  openai :: "(nat \<Rightarrow> string \<Rightarrow> string + string) option"
  pexelsSearch :: "nat \<Rightarrow> string \<Rightarrow> string + video list option"
  elevenLabs :: "nat \<Rightarrow> string \<Rightarrow> string \<Rightarrow> string + unit"
  httpGet :: "nat \<Rightarrow> string \<Rightarrow> string + unit"
  ffmpegRun :: "nat \<Rightarrow> string list \<Rightarrow> filter list \<Rightarrow> string list \<Rightarrow> string option"
  unlinkFails :: "string \<Rightarrow> bool"
  musicDir :: "string list option"
  randomDraw :: nat
  now :: nat
  tmpdir :: string
  dirname :: string

section \<open>Text generation with fallback (\<open>generateAiContent\<close>)\<close>

text \<open>
  The only caller passes no second argument, so the first provider is tried first. Its
  failure is logged and the second provider, when configured, is tried; the failure of the
  second one is thrown on.
\<close>

definition generateAiContent :: "env \<Rightarrow> world \<Rightarrow> string \<Rightarrow> (error + string) \<times> world" where
  "generateAiContent env w prompt =
     (let w1 = log_event (AiRequest prompt) w in
      case googleModel env (length (trace w)) prompt of
        Inr text \<Rightarrow> (Inr text, w1)
      | Inl googleError \<Rightarrow>
          (case openai env of
             None \<Rightarrow> (Inl AllAiProvidersFailed, w1)
           | Some chat \<Rightarrow>
               (let w2 = log_event (AiRequest prompt) w1 in
                case chat (length (trace w1)) prompt of
                  Inr content \<Rightarrow> (Inr content, w2)
                | Inl openaiError \<Rightarrow> (Inl (AiProviderError openaiError), w2))))"

section \<open>Voice selection (\<open>getVoiceForProduct\<close>)\<close>

definition VOICE_MAPPING :: "(string \<times> string) list" where
  "VOICE_MAPPING =
   [(''tech'', ''EXAVITQu4vr4xnSDxMaL''),
    (''gadgets'', ''pNInz6obpgDQGcFmaJgB''),
    (''electronics'', ''VR6AewLTigWG4xSOukaG''),
    (''automotive'', ''nPczCjzI2devNBz1zQrb''),
    (''sports'', ''EXAVITQu4vr4xnSDxMaL''),
    (''beauty'', ''21m00Tcm4TlvDq8ikWAM''),
    (''skincare'', ''21m00Tcm4TlvDq8ikWAM''),
    (''fashion'', ''LcfcDJNUP1GQjkzn1xUU''),
    (''clothing'', ''LcfcDJNUP1GQjkzn1xUU''),
    (''jewelry'', ''21m00Tcm4TlvDq8ikWAM''),
    (''food'', ''LcfcDJNUP1GQjkzn1xUU''),
    (''snacks'', ''LcfcDJNUP1GQjkzn1xUU''),
    (''health'', ''21m00Tcm4TlvDq8ikWAM''),
    (''fitness'', ''LcfcDJNUP1GQjkzn1xUU''),
    (''home'', ''LcfcDJNUP1GQjkzn1xUU''),
    (''kitchen'', ''21m00Tcm4TlvDq8ikWAM''),
    (''default'', ''21m00Tcm4TlvDq8ikWAM'')]"

definition getVoiceForProduct :: "string \<Rightarrow> string" where
  "getVoiceForProduct productName =
     (let product = toLowerCase productName in
      case find (\<lambda>(key, voiceId). str_includes product key) VOICE_MAPPING of
        Some (key, voiceId) \<Rightarrow> voiceId
      | None \<Rightarrow> ''21m00Tcm4TlvDq8ikWAM'')"

section \<open>Asset resolver (\<open>getPexelsVideoForLine\<close>)\<close>

text \<open>The two predicates of the \<open>find\<close> calls.\<close>

definition in_window :: "video \<Rightarrow> bool" where
  "in_window v = (8 \<le> duration v \<and> duration v \<le> 40)"

definition is_hd :: "video_file \<Rightarrow> bool" where
  "is_hd f = (quality f = ''hd'' \<and> truthy (link f))"

text \<open>
  The choice among the candidates of a response (the last \<open>if\<close> of the function). Reading
  the encodings of a candidate that has none throws a \<open>TypeError\<close>, which the enclosing
  \<open>catch\<close> turns into \<open>null\<close>.
\<close>

definition selectHdLink :: "video list option \<Rightarrow> string option" where
  "selectHdLink videos =
     (case videos of
        None \<Rightarrow> None
      | Some vs \<Rightarrow>
          if length vs > 0 then
            (case find in_window vs of
               None \<Rightarrow> None
             | Some video \<Rightarrow>
                 (case video_files video of
                    None \<Rightarrow> None
                  | Some files \<Rightarrow>
                      (case find is_hd files of
                         None \<Rightarrow> None
                       | Some hdVideo \<Rightarrow> link hdVideo)))
          else None)"

text \<open>
  The function throws outside its \<open>try\<close> when the key is missing. Inside, a first search
  combines the product name and the description; when it has no candidates, a second search
  uses the description alone. Every error of the two searches is caught and gives \<open>null\<close>.
\<close>

definition getPexelsVideoForLine ::
  "env \<Rightarrow> world \<Rightarrow> string \<Rightarrow> string \<Rightarrow> (error + string option) \<times> world" where
  "getPexelsVideoForLine env w visualDescription productName =
     (if \<not> truthy (pexelsApiKey env) then (Inl PexelsKeyMissing, w)
      else
        let query = productName @ '' '' @ visualDescription;
            w1 = log_event (SearchRequest query) w
        in case pexelsSearch env (length (trace w)) query of
             Inl message \<Rightarrow> (Inr None, w1)
           | Inr videos \<Rightarrow>
               if videos = None \<or> videos = Some [] then
                 (let w2 = log_event (SearchRequest visualDescription) w1 in
                  case pexelsSearch env (length (trace w1)) visualDescription of
                    Inl message \<Rightarrow> (Inr None, w2)
                  | Inr videos2 \<Rightarrow> (Inr (selectHdLink videos2), w2))
               else (Inr (selectHdLink videos), w1))"

text \<open>
  The selection rule in the words of the specification, for comparison with
  \<open>selectHdLink\<close>: the first candidate whose duration is within the window and whose
  encodings include the HD tier.
\<close>

definition has_hd :: "video \<Rightarrow> bool" where
  "has_hd v = (case video_files v of None \<Rightarrow> False | Some files \<Rightarrow> find is_hd files \<noteq> None)"

definition spec_select :: "video list \<Rightarrow> string option" where
  "spec_select vs =
     (case find (\<lambda>v. in_window v \<and> has_hd v) vs of
        None \<Rightarrow> None
      | Some v \<Rightarrow>
          (case video_files v of
             None \<Rightarrow> None
           | Some files \<Rightarrow> (case find is_hd files of None \<Rightarrow> None | Some f \<Rightarrow> link f)))"

section \<open>Narration (\<open>generateVoice\<close>)\<close>

definition generateVoice ::
  "env \<Rightarrow> world \<Rightarrow> string \<Rightarrow> string \<Rightarrow> nat \<Rightarrow> (error + string) \<times> world" where
  "generateVoice env w text voiceId timestamp =
     (let w1 = log_event (SpeechRequest text voiceId) w in
      case elevenLabs env (length (trace w)) text voiceId of
        Inl message \<Rightarrow> (Inl (VoiceoverFailed message), w1)
      | Inr u \<Rightarrow>
          (let tempFilePath = path_join (tmpdir env) (''voice-'' @ decimal timestamp @ ''.mp3'')
           in (Inr tempFilePath, w1\<lparr>disk := insert tempFilePath (disk w1)\<rparr>)))"

section \<open>Composition planner and renderer (\<open>createVideoWithSubtitles\<close>)\<close>

definition totalDuration :: nat where
  "totalDuration = 25"

text \<open>
  \<open>segmentDuration = totalDuration / downloadedFiles.length\<close>. For no file at all the
  quotient is \<open>Infinity\<close>, which no filter ever uses: the loop over the files does not run.
\<close>

definition segmentDuration :: "nat \<Rightarrow> binary64" where
  "segmentDuration n = js_div (js_nat totalDuration) (js_nat n)"

definition videoFilters :: "nat \<Rightarrow> filter list" where
  "videoFilters n = map (\<lambda>i. VideoSegment i (segmentDuration n)) [0..<n] @ [Concat n]"

text \<open>The audio part of \<open>complexFilter\<close>; \<open>audioIndex\<close> is the number of video inputs.\<close>

definition audioFilters :: "nat \<Rightarrow> string option \<Rightarrow> string option \<Rightarrow> filter list" where
  "audioFilters audioIndex voiceAudioPath customMusicPath =
     (if truthy voiceAudioPath \<and> truthy customMusicPath then
        [AudioTrack audioIndex (12 / 10) totalDuration ''voice'',
         AudioTrack (audioIndex + 1) (15 / 100) totalDuration ''music'',
         Amix [''voice'', ''music''] ''shortest'' ''outa'']
      else if truthy voiceAudioPath then
        [AudioTrack audioIndex (11 / 10) totalDuration ''outa'']
      else if truthy customMusicPath then
        [AudioTrack audioIndex (4 / 10) totalDuration ''outa'']
      else [])"

definition complexFilter :: "nat \<Rightarrow> string option \<Rightarrow> string option \<Rightarrow> filter list" where
  "complexFilter n voiceAudioPath customMusicPath =
     videoFilters n @ audioFilters n voiceAudioPath customMusicPath"

definition outputOptions :: "string option \<Rightarrow> string option \<Rightarrow> string list" where
  "outputOptions voiceAudioPath customMusicPath =
     [''-map'', ''[outv]''] @
     (if truthy voiceAudioPath \<or> truthy customMusicPath then [''-map'', ''[outa]''] else []) @
     [''-c:v'', ''libx264'', ''-preset'', ''fast'', ''-crf'', ''23'', ''-c:a'', ''aac'',
      ''-b:a'', ''128k'', ''-ar'', ''44100'', ''-t'', decimal totalDuration, ''-movflags'',
      ''+faststart'',
      ''-pix_fmt'', ''yuv420p'']"

text \<open>The inputs of the transcoder: the clips, then the narration, then the music.\<close>

definition ffmpegInputs :: "string list \<Rightarrow> string option \<Rightarrow> string option \<Rightarrow> string list" where
  "ffmpegInputs downloadedFiles voiceAudioPath customMusicPath =
     downloadedFiles @
     (case voiceAudioPath of None \<Rightarrow> [] | Some p \<Rightarrow> if p \<noteq> '''' then [p] else []) @
     (case customMusicPath of None \<Rightarrow> [] | Some p \<Rightarrow> if p \<noteq> '''' then [p] else [])"

text \<open>
  The download loop. A failed download leaves the loop through the \<open>catch\<close> of the function,
  which rejects; the clips written so far stay on disk.
\<close>

fun downloadAll ::
  "env \<Rightarrow> string list \<Rightarrow> nat \<Rightarrow> string list \<Rightarrow> world \<Rightarrow> (error + string list) \<times> world" where
  "downloadAll env [] i downloadedFiles w = (Inr downloadedFiles, w)"
| "downloadAll env (url # urls) i downloadedFiles w =
     (let w1 = log_event (DownloadRequest url) w in
      case httpGet env (length (trace w)) url of
        Inl message \<Rightarrow> (Inl (RenderError message), w1)
      | Inr u \<Rightarrow>
          (let inputPath = path_join (tmpdir env) (''clip-'' @ decimal i @ ''.mp4'')
           in downloadAll env urls (Suc i) (downloadedFiles @ [inputPath])
                (w1\<lparr>disk := insert inputPath (disk w1)\<rparr>)))"

text \<open>\<open>await fsp.unlink(file).catch(() => {})\<close>: a rejected deletion changes nothing.\<close>

definition unlink :: "env \<Rightarrow> string \<Rightarrow> world \<Rightarrow> world" where
  "unlink env file w = (if unlinkFails env file then w else w\<lparr>disk := disk w - {file}\<rparr>)"

definition is_alnum :: "char \<Rightarrow> bool" where
  "is_alnum c =
     (let n = (of_char c :: nat)
      in (97 \<le> n \<and> n \<le> 122) \<or> (65 \<le> n \<and> n \<le> 90) \<or> (48 \<le> n \<and> n \<le> 57))"

definition outputFilename :: "string \<Rightarrow> nat \<Rightarrow> string" where
  "outputFilename productName timestamp =
     ''tiktok-'' @ filter is_alnum productName @ ''-'' @ decimal timestamp @ ''.mp4''"

text \<open>
  The whole function. On the \<open>end\<close> event of the transcoder the clips and the narration file
  are deleted and the promise resolves with the address of the output; on its \<open>error\<close> event
  the promise is rejected. The script lines and the subtitle flag are not used.
\<close>

definition createVideoWithSubtitles ::
  "env \<Rightarrow> world \<Rightarrow> string list \<Rightarrow> string list \<Rightarrow> string option \<Rightarrow> string option \<Rightarrow> bool \<Rightarrow>
   nat \<Rightarrow> string \<Rightarrow> (error + string) \<times> world" where
  "createVideoWithSubtitles env w videoUrls overlays voiceAudioPath customMusicPath
       includeSubtitles timestamp productName =
     (case downloadAll env videoUrls 0 [] w of
        (Inl e, w1) \<Rightarrow> (Inl e, w1)
      | (Inr downloadedFiles, w1) \<Rightarrow>
          (let inputs = ffmpegInputs downloadedFiles voiceAudioPath customMusicPath;
               graph = complexFilter (length downloadedFiles) voiceAudioPath customMusicPath;
               options = outputOptions voiceAudioPath customMusicPath;
               w2 = log_event (TranscoderRun inputs graph options) w1
           in case ffmpegRun env (length (trace w1)) inputs graph options of
                Some message \<Rightarrow> (Inl (RenderError message), w2)
              | None \<Rightarrow>
                  (let outputPath =
                         path_join (path_join (path_join (dirname env) ''public'') ''videos'')
                           (outputFilename productName timestamp);
                       w3 = w2\<lparr>disk := insert outputPath (disk w2)\<rparr>;
                       w4 = fold (unlink env) downloadedFiles w3;
                       w5 = (case voiceAudioPath of
                               None \<Rightarrow> w4
                             | Some p \<Rightarrow> if p \<noteq> '''' then unlink env p w4 else w4)
                   in (Inr (''/videos/'' @ outputFilename productName timestamp), w5))))"

section \<open>Pipeline orchestrator (the handler of \<open>/api/generate\<close>)\<close>

text \<open>
  The fields of the request body. A text field is \<open>None\<close> when the body does not carry it;
  the subtitle flag is given with its default applied, the language is not used.
\<close>

record request =
  req_productName :: "string option"
  req_productUrl :: "string option"
  req_mood :: "string option"
  req_audioOption :: "string option"
  req_includeSubtitles :: bool

record response =
  res_videoUrl :: string
  res_script :: string
  res_scriptLines :: "string list"
  res_searchTerms :: "string list"
  res_voiceId :: string
  res_totalLines :: nat
  res_videoClips :: nat

text \<open>\<open>a || b\<close> where \<open>a\<close> is a string or absent and \<open>b\<close> is a string.\<close>

definition js_or :: "string option \<Rightarrow> string \<Rightarrow> string" where
  "js_or a b = (case a of None \<Rightarrow> b | Some s \<Rightarrow> if s = '''' then b else s)"

definition finalProductName :: "request \<Rightarrow> string" where
  "finalProductName req =
     js_or (req_productName req) (js_or (req_productUrl req) ''Amazing Product'')"

definition visualPrompt :: "string \<Rightarrow> string \<Rightarrow> string \<Rightarrow> string" where
  \<open>visualPrompt subject moodText line =
     ''Create a specific visual search term for Pexels that shows "'' @ subject @
     ''" related to this script line: "'' @ line @ ''". '' @ [newline] @
     ''            '' @ [newline] @
     ''Give me 3-4 keywords that would find videos showing:'' @ [newline] @
     ''- The actual product "'' @ subject @ ''"'' @ [newline] @
     ''- People using or enjoying this product'' @ [newline] @
     ''- The lifestyle/emotion from the script line'' @ [newline] @
     ''- '' @ moodText @ '' mood visuals'' @ [newline] @
     [newline] @
     ''Only return keywords, no explanation.''\<close>

text \<open>
  The loop over the first script lines (at most five). Everything a step throws, the failure
  of the text generation and the missing search key alike, is caught inside the step, and the
  loop goes on with the next line. A link that was found is pushed without any test.
\<close>

fun primaryLoop ::
  "env \<Rightarrow> string \<Rightarrow> string \<Rightarrow> string list \<Rightarrow> string list \<times> string list \<Rightarrow> world \<Rightarrow>
   (string list \<times> string list) \<times> world" where
  "primaryLoop env subject moodText [] acc w = (acc, w)"
| "primaryLoop env subject moodText (line # rest) (videoUrls, videoSearchTerms) w =
     (case generateAiContent env w (visualPrompt subject moodText line) of
        (Inl e, w1) \<Rightarrow> primaryLoop env subject moodText rest (videoUrls, videoSearchTerms) w1
      | (Inr text, w1) \<Rightarrow>
          (let visualDescription = trim text;
               terms = videoSearchTerms @ [visualDescription]
           in case getPexelsVideoForLine env w1 visualDescription subject of
                (Inl e, w2) \<Rightarrow> primaryLoop env subject moodText rest (videoUrls, terms) w2
              | (Inr videoUrl, w2) \<Rightarrow>
                  (case videoUrl of
                     None \<Rightarrow> primaryLoop env subject moodText rest (videoUrls, terms) w2
                   | Some u \<Rightarrow>
                       if u \<noteq> ''''
                       then primaryLoop env subject moodText rest (videoUrls @ [u], terms) w2
                       else primaryLoop env subject moodText rest (videoUrls, terms) w2)))"

definition fallbackSearches :: "string \<Rightarrow> string \<Rightarrow> string list" where
  "fallbackSearches subject moodText =
     [subject @ '' review'',
      subject @ '' unboxing'',
      subject @ '' lifestyle'',
      moodText @ '' '' @ subject,
      ''people using '' @ subject,
      subject @ '' benefits'',
      subject @ '' showcase'']"

text \<open>
  The loop over the fallback searches: it stops at five links, skips a link that is already
  in the list, and is not guarded by a \<open>try\<close>, so the missing search key ends the run.
\<close>

fun fallbackLoop ::
  "env \<Rightarrow> string \<Rightarrow> string list \<Rightarrow> string list \<Rightarrow> world \<Rightarrow> (error + string list) \<times> world" where
  "fallbackLoop env subject [] videoUrls w = (Inr videoUrls, w)"
| "fallbackLoop env subject (search # rest) videoUrls w =
     (if length videoUrls \<ge> 5 then (Inr videoUrls, w)
      else case getPexelsVideoForLine env w search subject of
             (Inl e, w1) \<Rightarrow> (Inl e, w1)
           | (Inr fallbackVideo, w1) \<Rightarrow>
               (case fallbackVideo of
                  None \<Rightarrow> fallbackLoop env subject rest videoUrls w1
                | Some u \<Rightarrow>
                    if u \<noteq> '''' \<and> u \<notin> set videoUrls
                    then fallbackLoop env subject rest (videoUrls @ [u]) w1
                    else fallbackLoop env subject rest videoUrls w1))"

text \<open>Step 2 of the handler up to, and without, the test for an empty list.\<close>

definition accumulateAssets ::
  "env \<Rightarrow> world \<Rightarrow> string \<Rightarrow> string \<Rightarrow> string list \<Rightarrow>
   (error + string list \<times> string list) \<times> world" where
  "accumulateAssets env w subject moodText overlays =
     (case primaryLoop env subject moodText (take (min (length overlays) 5) overlays) ([], []) w of
        ((videoUrls, videoSearchTerms), w1) \<Rightarrow>
          if length videoUrls < 3 then
            (case fallbackLoop env subject (fallbackSearches subject moodText) videoUrls w1 of
               (Inl e, w2) \<Rightarrow> (Inl e, w2)
             | (Inr urls, w2) \<Rightarrow> (Inr (urls, videoSearchTerms), w2))
          else (Inr (videoUrls, videoSearchTerms), w1))"

definition endsWith :: "string \<Rightarrow> string \<Rightarrow> bool" where
  "endsWith s suf = suffix suf s"

text \<open>The background music: a random file of the music directory, when music is wanted.\<close>

definition selectMusic :: "env \<Rightarrow> string \<Rightarrow> string option" where
  "selectMusic env audioOption =
     (if str_includes audioOption ''music'' then
        (case musicDir env of
           None \<Rightarrow> None
         | Some listing \<Rightarrow>
             (let musicFiles =
                    filter (\<lambda>f. endsWith f ''.wav'' \<or> endsWith f ''.mp3'' \<or> endsWith f ''.m4a'')
                      listing
              in if length musicFiles > 0
                 then Some (path_join (path_join (path_join (dirname env) ''public'') ''music'')
                              (musicFiles ! (randomDraw env mod length musicFiles)))
                 else None))
      else None)"

text \<open>\<open>xs.join('. ')\<close>.\<close>

fun join_sentences :: "string list \<Rightarrow> string" where
  "join_sentences [] = ''''"
| "join_sentences [l] = l"
| "join_sentences (l # m # ls) = l @ ''. '' @ join_sentences (m # ls)"

text \<open>The narration, when a voice is wanted; its failure ends the run.\<close>

definition narrate ::
  "env \<Rightarrow> world \<Rightarrow> string \<Rightarrow> string list \<Rightarrow> string \<Rightarrow> nat \<Rightarrow> (error + string option) \<times> world" where
  "narrate env w audioOption overlays selectedVoiceId timestamp =
     (if str_includes audioOption ''voice'' then
        (case generateVoice env w (join_sentences overlays @ ''.'') selectedVoiceId timestamp of
           (Inl e, w1) \<Rightarrow> (Inl e, w1)
         | (Inr p, w1) \<Rightarrow> (Inr (Some p), w1))
      else (Inr None, w))"

text \<open>
  Steps 3 and 4 and the answer, for a list of links that is not empty: the audio, the
  composition of at most five clips, and the result payload.
\<close>

definition renderStage ::
  "env \<Rightarrow> world \<Rightarrow> request \<Rightarrow> string \<Rightarrow> string \<Rightarrow> string list \<Rightarrow> string list \<Rightarrow> string list \<Rightarrow>
   (error + response) \<times> world" where
  "renderStage env w req subject fullScript overlays videoUrls videoSearchTerms =
     (let timestamp = now env;
          selectedVoiceId = getVoiceForProduct subject;
          audioOption = (case req_audioOption req of None \<Rightarrow> ''voice+music'' | Some a \<Rightarrow> a);
          customMusicPath = selectMusic env audioOption
      in case narrate env w audioOption overlays selectedVoiceId timestamp of
           (Inl e, w1) \<Rightarrow> (Inl e, w1)
         | (Inr voiceAudioPath, w1) \<Rightarrow>
             (case createVideoWithSubtitles env w1 (take 5 videoUrls) overlays voiceAudioPath
                     customMusicPath (req_includeSubtitles req) timestamp subject of
                (Inl e, w2) \<Rightarrow> (Inl e, w2)
              | (Inr finalVideoUrl, w2) \<Rightarrow>
                  (Inr \<lparr>res_videoUrl = ''http://localhost:3001'' @ finalVideoUrl,
                        res_script = fullScript,
                        res_scriptLines = overlays,
                        res_searchTerms = videoSearchTerms,
                        res_voiceId = selectedVoiceId,
                        res_totalLines = length overlays,
                        res_videoClips = min (length videoUrls) 5\<rparr>, w2)))"

text \<open>
  The handler. Its result is the error its \<open>catch\<close> receives, or the payload of the answer;
  the wording of the error message sent to the client is not modelled. A request without a
  mood prints as \<open>undefined\<close> in the texts built from it.
\<close>

definition generate :: "env \<Rightarrow> world \<Rightarrow> request \<Rightarrow> (error + response) \<times> world" where
  "generate env w req =
     (let subject = finalProductName req in
      case generateEnhancedScript subject (req_mood req) of
        Inl e \<Rightarrow> (Inl e, w)
      | Inr fullScript \<Rightarrow>
          (let overlays = textOverlays fullScript in
           if length overlays < 8 then (Inl ScriptTooShort, w)
           else
             (let moodText = (case req_mood req of None \<Rightarrow> ''undefined'' | Some m \<Rightarrow> m)
              in case accumulateAssets env w subject moodText overlays of
                   (Inl e, w1) \<Rightarrow> (Inl e, w1)
                 | (Inr (videoUrls, videoSearchTerms), w1) \<Rightarrow>
                     if length videoUrls = 0 then (Inl (NoVideosFound subject), w1)
                     else renderStage env w1 req subject fullScript overlays videoUrls
                            videoSearchTerms)))"

text \<open>The renderer has been invoked when the trace holds a download or a transcoder run.\<close>

fun renderer_event :: "event \<Rightarrow> bool" where
  "renderer_event (DownloadRequest url) = True"
| "renderer_event (TranscoderRun inputs graph options) = True"
| "renderer_event e = False"

definition renderer_invoked :: "world \<Rightarrow> bool" where
  "renderer_invoked w = list_ex renderer_event (trace w)"

section \<open>Notions used in the statements\<close>

text \<open>
  The two shapes of a script line in \<open>viralScripts\<close>: plain text that starts with the tag
  \<open>LINE:\<close>, or the tag, the product name and a rest. No literal part holds a dollar sign or a
  line feed, and no rest holds a closing brace.
\<close>

fun line_template :: "template \<Rightarrow> bool" where
  "line_template [Lit s] = (prefix ''LINE:'' s \<and> CHR ''$'' \<notin> set s \<and> newline \<notin> set s)"
| "line_template [Lit p, ProductName, Lit suf] =
     (p = ''LINE: '' \<and> CHR ''$'' \<notin> set suf \<and> CHR ''}'' \<notin> set suf \<and> newline \<notin> set suf)"
| "line_template t = False"

definition template_sets :: "template list list" where
  "template_sets = [funny_beauty, funny_tech, funny_fashion, funny_food, exciting_beauty,
     exciting_tech, trendy_default, luxurious_default]"

text \<open>The durations of the video segments of a graph, in order.\<close>

fun slices :: "filter list \<Rightarrow> binary64 list" where
  "slices [] = []"
| "slices (VideoSegment i d # fs) = d # slices fs"
| "slices (f # fs) = slices fs"

text \<open>The links downloaded during a run, in order.\<close>

fun downloads :: "event list \<Rightarrow> string list" where
  "downloads [] = []"
| "downloads (DownloadRequest url # es) = url # downloads es"
| "downloads (e # es) = downloads es"

text \<open>The graphs handed to the transcoder during a run, in order.\<close>

fun graphs :: "event list \<Rightarrow> filter list list" where
  "graphs [] = []"
| "graphs (TranscoderRun inputs graph options # es) = graph # graphs es"
| "graphs (e # es) = graphs es"

text \<open>
  Sample data for the concrete runs below: a candidate with an HD encoding, one with an SD
  encoding only, an environment in which every service succeeds and every search returns
  the HD candidate, a request, and the world before the run.
\<close>

definition hd_clip :: video where
  "hd_clip = \<lparr>video_id = 2, duration = 12,
               video_files = Some [\<lparr>quality = ''sd'', link = Some ''https://v.example/2-sd.mp4''\<rparr>,
                                   \<lparr>quality = ''hd'', link = Some ''https://v.example/2-hd.mp4''\<rparr>]\<rparr>"

definition sd_clip :: video where
  "sd_clip = \<lparr>video_id = 1, duration = 10,
               video_files = Some [\<lparr>quality = ''sd'', link = Some ''https://v.example/1-sd.mp4''\<rparr>]\<rparr>"

definition sample_env :: env where
  "sample_env =
     \<lparr>pexelsApiKey = Some ''key'',
      googleModel = (\<lambda>n prompt. Inr ''happy people outdoors''),
      openai = None,
      pexelsSearch = (\<lambda>n query. Inr (Some [hd_clip])),
      elevenLabs = (\<lambda>n text voiceId. Inr ()),
      httpGet = (\<lambda>n url. Inr ()),
      ffmpegRun = (\<lambda>n inputs graph options. None),
      unlinkFails = (\<lambda>file. False),
      musicDir = None,
      randomDraw = 0,
      now = 1700000000000,
      tmpdir = ''/tmp'',
      dirname = ''/srv/app''\<rparr>"

definition sample_request :: request where
  "sample_request =
     \<lparr>req_productName = Some ''Magic Glow Serum'',
      req_productUrl = None,
      req_mood = Some ''funny'',
      req_audioOption = Some ''voice'',
      req_includeSubtitles = True\<rparr>"

definition fresh_world :: world where
  "fresh_world = \<lparr>trace = [], disk = {}\<rparr>"

text \<open>
  Two variations of the sample environment: every search returns an SD-only candidate
  followed by the HD candidate, and the transcoder reports an error.
\<close>

definition two_candidates_env :: env where
  "two_candidates_env = sample_env\<lparr>pexelsSearch := (\<lambda>n query. Inr (Some [sd_clip, hd_clip]))\<rparr>"

definition failing_transcoder_env :: env where
  "failing_transcoder_env =
     sample_env\<lparr>ffmpegRun := (\<lambda>n inputs graph options. Some ''ffmpeg exited with code 1'')\<rparr>"

section \<open>Strings\<close>

lemma str_includes_iff_sublist: "str_includes s pat \<longleftrightarrow> sublist pat s"
  by (induction s) (auto simp: sublist_Cons_right)

lemma indexOf_None_iff: "indexOf s pat = None \<longleftrightarrow> \<not> str_includes s pat"
  by (induction s) auto

lemma str_replace_absent: "\<not> str_includes s pat \<Longrightarrow> str_replace s pat rep = s"
proof -
  assume "\<not> str_includes s pat"
  then have "indexOf s pat = None" by (simp add: indexOf_None_iff)
  then show ?thesis by (simp add: str_replace_def)
qed

lemma placeholder_between:
  assumes pre: "CHR ''$'' \<notin> set pre"
    and suf: "CHR ''$'' \<notin> set suf" "CHR ''}'' \<notin> set suf"
    and pn: "\<not> sublist placeholder pn"
  shows "\<not> sublist placeholder (pre @ pn @ suf)"
proof
  assume "sublist placeholder (pre @ pn @ suf)"
  have hd_in: "CHR ''$'' \<in> set xs1" if "placeholder = xs1 @ xs2" "xs1 \<noteq> []" for xs1 xs2
    using that by (cases xs1) (auto simp: placeholder_def)
  have last_in: "CHR ''}'' \<in> set xs2" if "placeholder = xs1 @ xs2" "xs2 \<noteq> []" for xs1 xs2
  proof -
    have "last placeholder = CHR ''}''" by (simp add: placeholder_def)
    then have "last (xs1 @ xs2) = CHR ''}''" using that(1) by simp
    then have "last xs2 = CHR ''}''" using that(2) by simp
    then show ?thesis using that(2) last_in_set by metis
  qed
  have dollar: "CHR ''$'' \<in> set placeholder" by (simp add: placeholder_def)
  have inner: "\<not> sublist placeholder (pn @ suf)"
  proof
    assume "sublist placeholder (pn @ suf)"
    then consider "sublist placeholder pn" | "sublist placeholder suf"
      | xs1 xs2 where "placeholder = xs1 @ xs2" "suffix xs1 pn" "prefix xs2 suf"
      by (auto simp: sublist_append)
    then show False
    proof cases
      case 1 with pn show False by simp
    next
      case 2 with suf(1) dollar show False using set_mono_sublist by fastforce
    next
      case 3
      show False
      proof (cases "xs2 = []")
        case True with 3 pn show False by auto
      next
        case False
        from last_in [OF 3(1) False] 3(3) suf(2) show False
          using set_mono_prefix by fastforce
      qed
    qed
  qed
  from \<open>sublist placeholder (pre @ pn @ suf)\<close>
  consider "sublist placeholder pre" | "sublist placeholder (pn @ suf)"
    | xs1 xs2 where "placeholder = xs1 @ xs2" "suffix xs1 pre" "prefix xs2 (pn @ suf)"
    by (auto simp: sublist_append)
  then show False
  proof cases
    case 1 with pre dollar show False using set_mono_sublist by fastforce
  next
    case 2 with inner show False by simp
  next
    case 3
    show False
    proof (cases "xs1 = []")
      case True with 3 inner show False by auto
    next
      case False
      from hd_in [OF 3(1) False] 3(2) pre show False
        using set_mono_suffix by fastforce
    qed
  qed
qed

lemma split_lines_nonempty: "split_lines s \<noteq> []"
  by (induction s) (auto split: list.splits)

lemma split_lines_append:
  "split_lines (a @ newline # b) = split_lines a @ split_lines b"
  by (induction a) (auto split: list.splits simp: split_lines_nonempty)

lemma split_lines_join:
  "ls \<noteq> [] \<Longrightarrow> split_lines (join_lines ls) = concat (map split_lines ls)"
  by (induction ls rule: join_lines.induct) (auto simp: split_lines_append)

lemma split_lines_no_newline: "newline \<notin> set s \<Longrightarrow> split_lines s = [s]"
  by (induction s) auto

lemma split_lines_prefix:
  "newline \<notin> set p \<Longrightarrow> split_lines (p @ r) = (p @ hd (split_lines r)) # tl (split_lines r)"
  by (induction p) (auto simp: split_lines_nonempty split: list.splits)

section \<open>The script synthesizer\<close>

lemma map_of_viralScripts:
  "map_of (viralScripts pn) m =
     map_option (map (\<lambda>(cat, ls). (cat, map (eval_template pn) ls))) (map_of viralTemplates m)"
  unfolding viralScripts_def by (simp add: map_of_map)

lemma map_of_instantiated:
  "map_of (map (\<lambda>(cat, ls). (cat, map (eval_template pn) ls)) cats) c =
     map_option (map (eval_template pn)) (map_of cats c)"
  by (simp add: map_of_map)

lemma toLowerCase_trendy: "toLowerCase ''trendy'' = ''trendy''"
  by code_simp

lemma map_of_trendy: "map_of viralTemplates ''trendy'' = Some [(''default'', trendy_default)]"
  by (simp add: viralTemplates_def)

lemma trendy_fallback:
  "map_of (moodScripts pn ''trendy'') ''default'' = Some (map (eval_template pn) trendy_default)"
  by (simp add: moodScripts_def map_of_viralScripts toLowerCase_trendy map_of_trendy or_else_def)

lemma moodScripts_recognized:
  "map_of viralTemplates (toLowerCase mood) = Some cats \<Longrightarrow>
   moodScripts pn mood = map (\<lambda>(cat, ls). (cat, map (eval_template pn) ls)) cats"
  by (simp add: moodScripts_def map_of_viralScripts or_else_def)

lemma selectedScript_trendy:
  "selectedScript pn ''trendy'' = map (eval_template pn) trendy_default"
  by (simp add: selectedScript_def trendy_fallback or_else_def
      moodScripts_recognized [of "''trendy''", unfolded toLowerCase_trendy, OF map_of_trendy])

text \<open>
  Claim C9. When the mood is one of the keys of \<open>viralScripts\<close> (after lower-casing), its set
  has no entry for the category of the subject and no entry \<open>default\<close>, the script is the
  default script of the mood \<open>trendy\<close>: the fallback crosses into another mood, and the
  function returns what it returns for the mood \<open>trendy\<close>. The witness is the mood \<open>funny\<close>
  with a subject that matches no category keyword.
\<close>

theorem mood_without_category_uses_trendy_default:
  assumes "map_of viralTemplates (toLowerCase mood) = Some cats"
    and "map_of cats (category productName) = None"
    and "map_of cats ''default'' = None"
  shows "selectedScript productName mood = map (eval_template productName) trendy_default \<and>
         generateEnhancedScript productName (Some mood) =
           generateEnhancedScript productName (Some ''trendy'')"
proof -
  have "selectedScript productName mood = map (eval_template productName) trendy_default"
    using assms(2,3)
    by (simp add: selectedScript_def moodScripts_recognized [OF assms(1)] or_else_def
        map_of_instantiated trendy_fallback)
  then show ?thesis
    by (simp add: generateEnhancedScript_def scriptLines_def selectedScript_trendy)
qed

theorem mood_without_category_uses_trendy_default_witness:
  "map_of viralTemplates (toLowerCase ''funny'') =
     Some [(''beauty'', funny_beauty), (''tech'', funny_tech),
           (''fashion'', funny_fashion), (''food'', funny_food)] \<and>
   category ''random gizmo'' = ''default'' \<and>
   selectedScript ''random gizmo'' ''funny'' = map (eval_template ''random gizmo'') trendy_default \<and>
   generateEnhancedScript ''random gizmo'' (Some ''funny'') =
     generateEnhancedScript ''random gizmo'' (Some ''trendy'')"
proof -
  have m: "map_of viralTemplates (toLowerCase ''funny'') =
     Some [(''beauty'', funny_beauty), (''tech'', funny_tech),
           (''fashion'', funny_fashion), (''food'', funny_food)]"
    by (simp add: viralTemplates_def toLowerCase_def lower_char_def)
  have c: "category ''random gizmo'' = ''default''"
    by (simp add: category_def toLowerCase_def lower_char_def)
  show ?thesis
    using m c mood_without_category_uses_trendy_default [OF m, of "''random gizmo''"]
    by simp
qed

lemma moodScripts_eval:
  "moodScripts pn mood = map (\<lambda>(cat, ls). (cat, map (eval_template pn) ls)) (moodTemplates mood)"
  by (simp add: moodScripts_def moodTemplates_def map_of_viralScripts or_else_def
      split: option.splits)

lemma selectedScript_eval:
  "selectedScript pn mood = map (eval_template pn) (selectedTemplate pn mood)"
  by (simp add: selectedScript_def selectedTemplate_def moodScripts_eval map_of_instantiated
      or_else_def split: option.splits)

lemma category_cases:
  "category pn \<in> {''beauty'', ''tech'', ''fashion'', ''food'', ''default''}"
  by (simp add: category_def Let_def)

lemma selectedTemplate_in_sets: "selectedTemplate pn mood \<in> set template_sets"
  using category_cases [of pn]
  by (auto simp: selectedTemplate_def moodTemplates_def viralTemplates_def or_else_def
      toLowerCase_trendy template_sets_def)

lemma template_sets_ten: "T \<in> set template_sets \<Longrightarrow> length T = 10"
  by (auto simp: template_sets_def funny_beauty_def funny_tech_def funny_fashion_def
      funny_food_def exciting_beauty_def exciting_tech_def trendy_default_def
      luxurious_default_def)

lemma template_sets_lines: "T \<in> set template_sets \<Longrightarrow> t \<in> set T \<Longrightarrow> line_template t"
  by (auto simp: template_sets_def funny_beauty_def funny_tech_def funny_fashion_def
      funny_food_def exciting_beauty_def exciting_tech_def trendy_default_def
      luxurious_default_def newline_def)

lemma dollar_free_no_placeholder: "CHR ''$'' \<notin> set s \<Longrightarrow> \<not> str_includes s placeholder"
proof
  assume a: "CHR ''$'' \<notin> set s" and "str_includes s placeholder"
  then have "set placeholder \<subseteq> set s"
    by (simp add: str_includes_iff_sublist set_mono_sublist)
  with a show False by (auto simp: placeholder_def)
qed

lemma line_replace_noop:
  assumes "line_template t" and "\<not> str_includes pn placeholder"
  shows "str_replace (eval_template pn t) placeholder pn = eval_template pn t"
proof (rule str_replace_absent)
  from assms show "\<not> str_includes (eval_template pn t) placeholder"
  proof (induction t rule: line_template.induct)
    case (1 s)
    then show ?case by (simp add: eval_template_def dollar_free_no_placeholder)
  next
    case (2 p suf)
    then have "\<not> sublist placeholder (''LINE: '' @ pn @ suf)"
      by (intro placeholder_between) (simp_all add: str_includes_iff_sublist)
    with 2 show ?case by (simp add: eval_template_def str_includes_iff_sublist)
  qed simp_all
qed

lemma line_includes_subject:
  "line_template t \<Longrightarrow> ProductName \<in> set t \<Longrightarrow> str_includes (eval_template pn t) pn"
proof (induction t rule: line_template.induct)
  case (2 p suf)
  have "sublist pn (p @ pn @ suf)" by (rule sublist_appendI)
  then show ?case by (simp add: eval_template_def str_includes_iff_sublist)
qed simp_all

lemma indexOf_prefix: "indexOf s pat = Some i \<Longrightarrow> prefix pat (drop i s)"
  by (induction s arbitrary: i) (auto split: if_splits)

lemma line_starts_with_tag:
  assumes "line_template t"
  shows "startsWith (str_replace (eval_template pn t) placeholder pn) ''LINE:''"
  using assms
proof (induction t rule: line_template.induct)
  case (1 s)
  then show ?case
    by (simp add: eval_template_def str_replace_absent dollar_free_no_placeholder startsWith_def)
next
  case (2 p suf)
  have "indexOf (''LINE: '' @ x) placeholder =
          map_option (\<lambda>i. Suc (Suc (Suc (Suc (Suc (Suc i)))))) (indexOf x placeholder)" for x
    by (simp add: placeholder_def option.map_comp comp_def)
  then show ?case using 2
    by (auto simp: eval_template_def str_replace_def startsWith_def Let_def split: option.splits)
qed simp_all

lemma filter_tagged_pieces:
  assumes "\<And>l. l \<in> set ls \<Longrightarrow> startsWith l ''LINE:''"
  shows "length ls \<le> length (filter (\<lambda>l. startsWith l ''LINE:'') (concat (map split_lines ls)))"
  using assms
proof (induction ls)
  case Nil
  then show ?case by simp
next
  case (Cons l ls)
  from Cons.prems have "startsWith l ''LINE:''" by simp
  then obtain r where l: "l = ''LINE:'' @ r" by (auto simp: startsWith_def prefix_def)
  have "split_lines l = (''LINE:'' @ hd (split_lines r)) # tl (split_lines r)"
    unfolding l by (rule split_lines_prefix) (simp add: newline_def)
  then have "1 \<le> length (filter (\<lambda>l. startsWith l ''LINE:'') (split_lines l))"
    by (simp add: startsWith_def)
  moreover have "length ls \<le> length (filter (\<lambda>l. startsWith l ''LINE:'') (concat (map split_lines ls)))"
    using Cons by simp
  ultimately show ?case by simp
qed

lemma scriptLines_templates:
  "scriptLines pn mood =
     map (\<lambda>t. str_replace (eval_template pn t) placeholder pn) (selectedTemplate pn mood)"
  by (simp add: scriptLines_def selectedScript_eval comp_def)

lemma length_scriptLines: "length (scriptLines pn mood) = 10"
  by (simp add: scriptLines_templates template_sets_ten selectedTemplate_in_sets)

lemma selected_line_template:
  "t \<in> set (selectedTemplate pn mood) \<Longrightarrow> line_template t"
  using template_sets_lines selectedTemplate_in_sets by blast

lemma length_textOverlays: "length (textOverlays (join_lines (scriptLines pn mood))) = 10"
proof -
  let ?ls = "scriptLines pn mood"
  have ne: "?ls \<noteq> []" using length_scriptLines [of pn mood] by auto
  have "\<And>l. l \<in> set ?ls \<Longrightarrow> startsWith l ''LINE:''"
    by (auto simp: scriptLines_templates line_starts_with_tag selected_line_template)
  then have "length ?ls \<le> length (filter (\<lambda>l. startsWith l ''LINE:'') (concat (map split_lines ?ls)))"
    by (rule filter_tagged_pieces)
  then show ?thesis
    by (simp add: textOverlays_def split_lines_join [OF ne] length_scriptLines)
qed

lemma eval_template_no_newline:
  "line_template t \<Longrightarrow> newline \<notin> set pn \<Longrightarrow> newline \<notin> set (eval_template pn t)"
  by (induction t rule: line_template.induct) (auto simp: eval_template_def newline_def)

lemma split_join_lines:
  "ls \<noteq> [] \<Longrightarrow> (\<And>l. l \<in> set ls \<Longrightarrow> newline \<notin> set l) \<Longrightarrow> split_lines (join_lines ls) = ls"
proof -
  assume ne: "ls \<noteq> []" and nl: "\<And>l. l \<in> set ls \<Longrightarrow> newline \<notin> set l"
  have "concat (map split_lines xs) = xs" if "\<And>l. l \<in> set xs \<Longrightarrow> newline \<notin> set l" for xs
    using that by (induction xs) (simp_all add: split_lines_no_newline)
  with ne nl show ?thesis by (simp add: split_lines_join)
qed

text \<open>
  Claim C8. For every subject and every mood the synthesizer returns the ten lines of the
  selected script joined by line feeds, and the orchestrator reads exactly ten lines back
  from that text. For a valid subject, one that does not itself contain the text
  \<open>${productName}\<close>, every line whose template refers to the subject contains the subject;
  when the subject has no line feed either, the returned text splits into exactly these ten
  lines.
\<close>

theorem script_synthesizer_ten_lines:
  "generateEnhancedScript productName (Some mood) = Inr (join_lines (scriptLines productName mood)) \<and>
   length (scriptLines productName mood) = 10 \<and>
   length (textOverlays (join_lines (scriptLines productName mood))) = 10 \<and>
   (\<not> str_includes productName placeholder \<longrightarrow>
      (\<forall>i<10. ProductName \<in> set (selectedTemplate productName mood ! i) \<longrightarrow>
         str_includes (scriptLines productName mood ! i) productName)) \<and>
   (\<not> str_includes productName placeholder \<and> newline \<notin> set productName \<longrightarrow>
      split_lines (join_lines (scriptLines productName mood)) = scriptLines productName mood)"
proof -
  let ?T = "selectedTemplate productName mood"
  have len: "length ?T = 10" by (simp add: template_sets_ten selectedTemplate_in_sets)
  have a: "str_includes (scriptLines productName mood ! i) productName"
    if "\<not> str_includes productName placeholder" "i < 10" "ProductName \<in> set (?T ! i)" for i
  proof -
    have "?T ! i \<in> set ?T" using that(2) len by simp
    then have lt: "line_template (?T ! i)" by (rule selected_line_template)
    have "scriptLines productName mood ! i = eval_template productName (?T ! i)"
      using that(1,2) len lt by (simp add: scriptLines_templates line_replace_noop)
    then show ?thesis using lt that(3) by (simp add: line_includes_subject)
  qed
  have b: "split_lines (join_lines (scriptLines productName mood)) = scriptLines productName mood"
    if "\<not> str_includes productName placeholder" "newline \<notin> set productName"
  proof (rule split_join_lines)
    show "scriptLines productName mood \<noteq> []"
      using length_scriptLines [of productName mood] by auto
    fix l assume "l \<in> set (scriptLines productName mood)"
    then obtain t where "t \<in> set ?T" "l = str_replace (eval_template productName t) placeholder productName"
      by (auto simp: scriptLines_templates)
    then show "newline \<notin> set l"
      using that by (simp add: selected_line_template line_replace_noop eval_template_no_newline)
  qed
  show ?thesis
    using a b by (simp add: generateEnhancedScript_def length_scriptLines length_textOverlays)
qed

text \<open>
  The condition on the subject is needed: a subject that contains the text \<open>${productName}\<close>
  is rewritten by the call of \<open>replace\<close>, here with the pattern \<open>$`\<close> that inserts the text
  before the match.
\<close>

lemma subject_with_placeholder_is_rewritten:
  \<open>scriptLines (''${productName}$'' @ [CHR 0x60]) ''funny'' ! 1 =
     ''LINE: ${productName}LINE: $'' @ [CHR 0x60] @ '' hits different bestie'' \<and>
   \<not> str_includes (scriptLines (''${productName}$'' @ [CHR 0x60]) ''funny'' ! 1)
       (''${productName}$'' @ [CHR 0x60])\<close>
  by code_simp

theorem script_synthesizer_ten_lines_witness:
  "\<not> str_includes ''Magic Glow Serum'' placeholder \<and>
   newline \<notin> set ''Magic Glow Serum'' \<and>
   (1::nat) < 10 \<and>
   ProductName \<in> set (selectedTemplate ''Magic Glow Serum'' ''funny'' ! 1) \<and>
   str_includes (scriptLines ''Magic Glow Serum'' ''funny'' ! 1) ''Magic Glow Serum'' \<and>
   split_lines (join_lines (scriptLines ''Magic Glow Serum'' ''funny'')) =
     scriptLines ''Magic Glow Serum'' ''funny''"
proof -
  have h1: "\<not> str_includes ''Magic Glow Serum'' placeholder"
    by (simp add: placeholder_def)
  have h2: "newline \<notin> set ''Magic Glow Serum''"
    by (simp add: newline_def)
  have h3: "ProductName \<in> set (selectedTemplate ''Magic Glow Serum'' ''funny'' ! 1)"
    by code_simp
  from script_synthesizer_ten_lines [of "''Magic Glow Serum''" "''funny''"] h1 h2
  have a: "\<forall>i<10. ProductName \<in> set (selectedTemplate ''Magic Glow Serum'' ''funny'' ! i) \<longrightarrow>
             str_includes (scriptLines ''Magic Glow Serum'' ''funny'' ! i) ''Magic Glow Serum''"
    and b: "split_lines (join_lines (scriptLines ''Magic Glow Serum'' ''funny'')) =
             scriptLines ''Magic Glow Serum'' ''funny''"
    by blast+
  from a h3 have "str_includes (scriptLines ''Magic Glow Serum'' ''funny'' ! 1) ''Magic Glow Serum''"
    by simp
  with h1 h2 h3 b show ?thesis by simp
qed

section \<open>The asset resolver\<close>

lemma find_conj_Some: "find P xs = Some v \<Longrightarrow> Q v \<Longrightarrow> find (\<lambda>x. P x \<and> Q x) xs = Some v"
  by (induction xs) (auto split: if_splits)

lemma find_conj_None: "find P xs = None \<Longrightarrow> find (\<lambda>x. P x \<and> Q x) xs = None"
  by (induction xs) (auto split: if_splits)

lemma find_first_index:
  "find P xs = Some x \<longleftrightarrow> (\<exists>i<length xs. P (xs ! i) \<and> (\<forall>j<i. \<not> P (xs ! j)) \<and> x = xs ! i)"
  by (auto simp: find_Some_iff)

lemma selectHdLink_Some_iff:
  "selectHdLink (Some vs) = Some l \<longleftrightarrow>
     (\<exists>i<length vs. in_window (vs ! i) \<and> (\<forall>j<i. \<not> in_window (vs ! j)) \<and>
        (\<exists>files f. video_files (vs ! i) = Some files \<and> find is_hd files = Some f \<and>
           link f = Some l))"
  (is "?L \<longleftrightarrow> ?R")
proof
  assume ?L
  then obtain v files f where v: "find in_window vs = Some v"
    and f: "video_files v = Some files" "find is_hd files = Some f" "link f = Some l"
    by (auto simp: selectHdLink_def split: option.splits if_splits)
  from v obtain i where "i < length vs" "in_window (vs ! i)" "\<forall>j<i. \<not> in_window (vs ! j)"
    "v = vs ! i"
    unfolding find_first_index by blast
  with f show ?R by blast
next
  assume ?R
  then obtain i files f where i: "i < length vs" "in_window (vs ! i)"
    "\<forall>j<i. \<not> in_window (vs ! j)"
    and f: "video_files (vs ! i) = Some files" "find is_hd files = Some f" "link f = Some l"
    by blast
  from i have "find in_window vs = Some (vs ! i)"
    unfolding find_first_index by blast
  moreover from i have "vs \<noteq> []" by auto
  ultimately show ?L using f by (simp add: selectHdLink_def)
qed

lemma selectHdLink_agrees_with_spec:
  assumes "\<And>v. find in_window vs = Some v \<Longrightarrow> has_hd v"
  shows "selectHdLink (Some vs) = spec_select vs"
proof (cases "find in_window vs")
  case None
  then show ?thesis
    by (simp add: selectHdLink_def spec_select_def find_conj_None)
next
  case (Some v)
  with assms have "has_hd v" by simp
  with Some have "find (\<lambda>v. in_window v \<and> has_hd v) vs = Some v"
    by (rule find_conj_Some)
  moreover from Some have "vs \<noteq> []" by auto
  ultimately show ?thesis using Some
    by (simp add: selectHdLink_def spec_select_def)
qed

lemma resolver_with_candidates:
  assumes "truthy (pexelsApiKey env)"
    and "pexelsSearch env (length (trace w)) (subject @ '' '' @ cue) = Inr (Some vs)"
    and "vs \<noteq> []"
  shows "fst (getPexelsVideoForLine env w cue subject) = Inr (selectHdLink (Some vs))"
  using assms by (simp add: getPexelsVideoForLine_def Let_def)

lemma resolver_with_second_search:
  assumes "truthy (pexelsApiKey env)"
    and "pexelsSearch env (length (trace w)) (subject @ '' '' @ cue) = Inr first"
    and "first = None \<or> first = Some []"
    and "pexelsSearch env (Suc (length (trace w))) cue = Inr (Some vs)"
  shows "fst (getPexelsVideoForLine env w cue subject) = Inr (selectHdLink (Some vs))"
  using assms by (auto simp: getPexelsVideoForLine_def Let_def log_event_def)

text \<open>
  Claim C1, amended. The resolver selects from one candidate list: the answer of the search
  for subject and cue when that answer has candidates, otherwise the answer of the second
  search for the cue alone. In that list it looks at the first candidate whose duration lies
  within 8 to 40 seconds and at no other: it returns a link exactly when that candidate has
  an encoding of quality \<open>hd\<close> with a link, namely the link of the first such encoding, and
  \<open>None\<close> otherwise, also when a later candidate has one. It agrees with the rule of the
  specification whenever the first candidate in the window has an HD encoding.
\<close>

theorem resolver_takes_first_candidate_in_window:
  assumes "truthy (pexelsApiKey env)"
    and "(pexelsSearch env (length (trace w)) (subject @ '' '' @ cue) = Inr (Some vs) \<and> vs \<noteq> []) \<or>
         (\<exists>first. pexelsSearch env (length (trace w)) (subject @ '' '' @ cue) = Inr first \<and>
            (first = None \<or> first = Some []) \<and>
            pexelsSearch env (Suc (length (trace w))) cue = Inr (Some vs))"
  shows "\<exists>r. fst (getPexelsVideoForLine env w cue subject) = Inr r \<and>
           (\<forall>l. r = Some l \<longleftrightarrow>
              (\<exists>i<length vs. in_window (vs ! i) \<and> (\<forall>j<i. \<not> in_window (vs ! j)) \<and>
                 (\<exists>files f. video_files (vs ! i) = Some files \<and> find is_hd files = Some f \<and>
                    link f = Some l))) \<and>
           ((\<forall>v. find in_window vs = Some v \<longrightarrow> has_hd v) \<longrightarrow> r = spec_select vs)"
proof -
  from assms have "fst (getPexelsVideoForLine env w cue subject) = Inr (selectHdLink (Some vs))"
    using resolver_with_candidates [of env w subject cue vs]
      resolver_with_second_search [of env w subject cue _ vs]
    by blast
  then show ?thesis
    using selectHdLink_Some_iff [of vs] selectHdLink_agrees_with_spec [of vs] by auto
qed

theorem resolver_misses_later_candidate:
  "selectHdLink (Some [sd_clip, hd_clip]) = None \<and>
   spec_select [sd_clip, hd_clip] = Some ''https://v.example/2-hd.mp4'' \<and>
   fst (getPexelsVideoForLine two_candidates_env fresh_world ''happy people outdoors''
          ''Magic Glow Serum'') = Inr None"
  by (simp add: selectHdLink_def spec_select_def sd_clip_def hd_clip_def in_window_def
      is_hd_def has_hd_def truthy_def getPexelsVideoForLine_def sample_env_def
      two_candidates_env_def Let_def)

theorem resolver_takes_first_candidate_in_window_witness:
  "truthy (pexelsApiKey sample_env) \<and>
   pexelsSearch sample_env (length (trace fresh_world)) (''Magic Glow Serum'' @ '' '' @ ''glow'')
     = Inr (Some [hd_clip]) \<and>
   [hd_clip] \<noteq> [] \<and>
   fst (getPexelsVideoForLine sample_env fresh_world ''glow'' ''Magic Glow Serum'') =
     Inr (Some ''https://v.example/2-hd.mp4'') \<and>
   pexelsSearch (sample_env\<lparr>pexelsSearch :=
        (\<lambda>n q. if n = 0 then Inr (Some []) else Inr (Some [sd_clip, hd_clip]))\<rparr>)
     (length (trace fresh_world)) (''Magic Glow Serum'' @ '' '' @ ''glow'') = Inr (Some []) \<and>
   pexelsSearch (sample_env\<lparr>pexelsSearch :=
        (\<lambda>n q. if n = 0 then Inr (Some []) else Inr (Some [sd_clip, hd_clip]))\<rparr>)
     (Suc (length (trace fresh_world))) ''glow'' = Inr (Some [sd_clip, hd_clip]) \<and>
   fst (getPexelsVideoForLine (sample_env\<lparr>pexelsSearch :=
          (\<lambda>n q. if n = 0 then Inr (Some []) else Inr (Some [sd_clip, hd_clip]))\<rparr>)
          fresh_world ''glow'' ''Magic Glow Serum'') = Inr None"
proof -
  let ?e2 = "sample_env\<lparr>pexelsSearch :=
        (\<lambda>n q. if n = 0 then Inr (Some []) else Inr (Some [sd_clip, hd_clip]))\<rparr>"
  have k: "truthy (pexelsApiKey sample_env)" by (simp add: sample_env_def truthy_def)
  have s: "pexelsSearch sample_env (length (trace fresh_world))
             (''Magic Glow Serum'' @ '' '' @ ''glow'') = Inr (Some [hd_clip])"
    by (simp add: sample_env_def)
  have n: "[hd_clip] \<noteq> []" by simp
  have h: "find in_window [hd_clip] = Some v \<longrightarrow> has_hd v" for v
    by (auto simp: in_window_def hd_clip_def has_hd_def is_hd_def truthy_def)
  have sp: "spec_select [hd_clip] = Some ''https://v.example/2-hd.mp4''"
    by (simp add: spec_select_def in_window_def hd_clip_def has_hd_def is_hd_def truthy_def)
  from s n have d1: "(pexelsSearch sample_env (length (trace fresh_world))
        (''Magic Glow Serum'' @ '' '' @ ''glow'') = Inr (Some [hd_clip]) \<and> [hd_clip] \<noteq> []) \<or>
      (\<exists>first. pexelsSearch sample_env (length (trace fresh_world))
          (''Magic Glow Serum'' @ '' '' @ ''glow'') = Inr first \<and>
          (first = None \<or> first = Some []) \<and>
          pexelsSearch sample_env (Suc (length (trace fresh_world))) ''glow'' = Inr (Some [hd_clip]))"
    by blast
  from resolver_takes_first_candidate_in_window [OF k d1] h sp
  have r1: "fst (getPexelsVideoForLine sample_env fresh_world ''glow'' ''Magic Glow Serum'') =
     Inr (Some ''https://v.example/2-hd.mp4'')"
    by auto
  have k2: "truthy (pexelsApiKey ?e2)" by (simp add: sample_env_def truthy_def)
  have s1: "pexelsSearch ?e2 (length (trace fresh_world))
      (''Magic Glow Serum'' @ '' '' @ ''glow'') = Inr (Some [])"
    by (simp add: fresh_world_def)
  have s2: "pexelsSearch ?e2 (Suc (length (trace fresh_world))) ''glow'' =
      Inr (Some [sd_clip, hd_clip])"
    by simp
  from s1 s2 have d2: "(pexelsSearch ?e2 (length (trace fresh_world))
        (''Magic Glow Serum'' @ '' '' @ ''glow'') = Inr (Some [sd_clip, hd_clip]) \<and>
        [sd_clip, hd_clip] \<noteq> []) \<or>
      (\<exists>first. pexelsSearch ?e2 (length (trace fresh_world))
          (''Magic Glow Serum'' @ '' '' @ ''glow'') = Inr first \<and>
          (first = None \<or> first = Some []) \<and>
          pexelsSearch ?e2 (Suc (length (trace fresh_world))) ''glow'' =
            Inr (Some [sd_clip, hd_clip]))"
    by blast
  have none: "\<not> (\<exists>i<length [sd_clip, hd_clip]. in_window ([sd_clip, hd_clip] ! i) \<and>
      (\<forall>j<i. \<not> in_window ([sd_clip, hd_clip] ! j)) \<and>
      (\<exists>files f. video_files ([sd_clip, hd_clip] ! i) = Some files \<and>
         find is_hd files = Some f \<and> link f = Some l))" for l
  proof -
    have "selectHdLink (Some [sd_clip, hd_clip]) = None"
      by (simp add: selectHdLink_def sd_clip_def hd_clip_def in_window_def is_hd_def)
    then show ?thesis
      using selectHdLink_Some_iff [of "[sd_clip, hd_clip]" l] by simp
  qed
  from resolver_takes_first_candidate_in_window [OF k2 d2] none
  have r2: "fst (getPexelsVideoForLine ?e2 fresh_world ''glow'' ''Magic Glow Serum'') = Inr None"
    by (metis option.exhaust)
  from k s n r1 s1 s2 r2 show ?thesis by blast
qed

section \<open>The composition planner\<close>

lemma slices_segments:
  "slices (map (\<lambda>i. VideoSegment i d) xs @ rest) = replicate (length xs) d @ slices rest"
  by (induction xs) simp_all

lemma slices_audioFilters: "slices (audioFilters n voice music) = []"
  by (simp add: audioFilters_def)

lemma slices_complexFilter:
  "slices (complexFilter n voice music) = replicate n (segmentDuration n)"
  by (simp add: complexFilter_def videoFilters_def slices_segments slices_audioFilters)

lemma bitlen_numeral_step: "bitlen (numeral k) = bitlen (numeral k div 2) + 1"
  by (subst compute_bitlen) simp

lemma bitlen_one: "bitlen 1 = 1"
  by (simp add: compute_bitlen)

lemmas binary64_eval = round_ratio_def js_div_def js_add_def totalDuration_def
  segmentDuration_def js_nat_def Let_def bitlen_numeral_step bitlen_one value_of_def

lemma segmentDuration_values:
  "segmentDuration 1 = (7036874417766400, -48)"
  "segmentDuration 2 = (7036874417766400, -49)"
  "segmentDuration 3 = (4691249611844267, -49)"
  "segmentDuration 4 = (7036874417766400, -50)"
  "segmentDuration 5 = (5629499534213120, -50)"
  by (simp_all add: binary64_eval)

lemma replicate_upto_five:
  "replicate 1 x = [x]" "replicate 2 x = [x, x]" "replicate 3 x = [x, x, x]"
  "replicate 4 x = [x, x, x, x]" "replicate 5 x = [x, x, x, x, x]"
  by (simp_all add: eval_nat_numeral)

lemma slices_sum_values:
  "value_of (foldl js_add (js_nat 0) (replicate 1 (segmentDuration 1))) = 25"
  "value_of (foldl js_add (js_nat 0) (replicate 2 (segmentDuration 2))) = 25"
  "value_of (foldl js_add (js_nat 0) (replicate 3 (segmentDuration 3))) = 25"
  "value_of (foldl js_add (js_nat 0) (replicate 4 (segmentDuration 4))) = 25"
  "value_of (foldl js_add (js_nat 0) (replicate 5 (segmentDuration 5))) = 25"
  unfolding replicate_upto_five segmentDuration_values
  by (simp_all add: js_add_def js_nat_def round_ratio_def Let_def bitlen_numeral_step
      bitlen_one value_of_def)

lemma slice_exact_values:
  "value_of (segmentDuration 1) = 25 / of_nat 1"
  "value_of (segmentDuration 2) = 25 / of_nat 2"
  "value_of (segmentDuration 4) = 25 / of_nat 4"
  "value_of (segmentDuration 5) = 25 / of_nat 5"
  "value_of (segmentDuration 3) = 25 / of_nat 3 + 1 / (3 * 2 ^ 49)"
  unfolding segmentDuration_values by (simp_all add: value_of_def)

lemma one_to_five: "1 \<le> n \<Longrightarrow> n \<le> 5 \<Longrightarrow> n = 1 \<or> n = 2 \<or> n = 3 \<or> n = 4 \<or> n = (5::nat)"
  by arith

lemma slices_for_one_to_five:
  assumes "1 \<le> n" "n \<le> 5"
  shows "value_of (foldl js_add (js_nat 0) (replicate n (segmentDuration n))) = 25"
    and "\<bar>value_of (segmentDuration n) - 25 / of_nat n\<bar> \<le> 1 / 2 ^ 50"
    and "n \<noteq> 3 \<Longrightarrow> value_of (segmentDuration n) = 25 / of_nat n"
proof -
  from one_to_five [OF assms]
  consider "n = 1" | "n = 2" | "n = 3" | "n = 4" | "n = 5" by blast
  then show "value_of (foldl js_add (js_nat 0) (replicate n (segmentDuration n))) = 25"
    by cases (simp_all only: slices_sum_values)
  from one_to_five [OF assms]
  consider "n = 1" | "n = 2" | "n = 3" | "n = 4" | "n = 5" by blast
  then show "\<bar>value_of (segmentDuration n) - 25 / of_nat n\<bar> \<le> 1 / 2 ^ 50"
    by cases (simp_all only: slice_exact_values, simp_all)
  assume "n \<noteq> 3"
  with one_to_five [OF assms]
  consider "n = 1" | "n = 2" | "n = 4" | "n = 5" by blast
  then show "value_of (segmentDuration n) = 25 / of_nat n"
    by cases (simp_all only: slice_exact_values)
qed

section \<open>Traces\<close>

lemma downloads_append: "downloads (xs @ ys) = downloads xs @ downloads ys"
  by (induction xs rule: downloads.induct) simp_all

lemma graphs_append: "graphs (xs @ ys) = graphs xs @ graphs ys"
  by (induction xs rule: graphs.induct) simp_all

lemma downloads_requests: "downloads (map DownloadRequest urls) = urls"
  by (induction urls) simp_all

lemma graphs_requests: "graphs (map DownloadRequest urls) = []"
  by (induction urls) simp_all

lemma trace_unlink: "trace (unlink env file w) = trace w"
  by (simp add: unlink_def)

lemma trace_fold_unlink: "trace (fold (unlink env) files w) = trace w"
  by (induction files arbitrary: w) (simp_all add: trace_unlink)

lemma downloadAll_trace:
  "downloadAll env urls i files w = (Inr files', w') \<Longrightarrow>
   trace w' = trace w @ map DownloadRequest urls \<and> length files' = length files + length urls"
proof (induction urls arbitrary: i files w)
  case Nil
  then show ?case by simp
next
  case (Cons url urls)
  then show ?case
    by (auto simp: Let_def log_event_def split: sum.splits)
qed

lemma createVideo_success_trace:
  assumes "createVideoWithSubtitles env w urls overlays voice music subs ts subject = (Inr out, w')"
  shows "\<exists>inputs options.
           trace w' = trace w @ map DownloadRequest urls @
             [TranscoderRun inputs (complexFilter (length urls) voice music) options]"
proof -
  from assms obtain files w1 where d: "downloadAll env urls 0 [] w = (Inr files, w1)"
    by (auto simp: createVideoWithSubtitles_def split: prod.splits sum.splits)
  from downloadAll_trace [OF d]
  have t: "trace w1 = trace w @ map DownloadRequest urls" and l: "length files = length urls"
    by simp_all
  from assms d t l show ?thesis
    by (auto simp: createVideoWithSubtitles_def Let_def log_event_def trace_unlink
        trace_fold_unlink split: option.splits if_splits)
qed

lemma narrate_trace:
  "narrate env w audioOption overlays voiceId ts = (r, w1) \<Longrightarrow>
   downloads (trace w1) = downloads (trace w) \<and> graphs (trace w1) = graphs (trace w)"
  by (auto simp: narrate_def generateVoice_def Let_def log_event_def downloads_append
      graphs_append split: if_splits sum.splits prod.splits)

lemma renderStage_success:
  assumes "renderStage env w req subject script overlays urls terms = (Inr resp, w')"
  shows "downloads (trace w') = downloads (trace w) @ take 5 urls \<and>
         (\<exists>voice music. graphs (trace w') =
            graphs (trace w) @ [complexFilter (min 5 (length urls)) voice music])"
proof -
  let ?audio = "case req_audioOption req of None \<Rightarrow> ''voice+music'' | Some a \<Rightarrow> a"
  obtain r w1 where n: "narrate env w ?audio overlays (getVoiceForProduct subject) (now env) = (r, w1)"
    by (cases "narrate env w ?audio overlays (getVoiceForProduct subject) (now env)")
  with assms obtain voice out where r: "r = Inr voice"
    and c: "createVideoWithSubtitles env w1 (take 5 urls) overlays voice
              (selectMusic env ?audio) (req_includeSubtitles req) (now env) subject = (Inr out, w')"
    by (auto simp: renderStage_def Let_def split: sum.splits prod.splits)
  from createVideo_success_trace [OF c] obtain inputs options where
    "trace w' = trace w1 @ map DownloadRequest (take 5 urls) @
       [TranscoderRun inputs (complexFilter (length (take 5 urls)) voice (selectMusic env ?audio)) options]"
    by blast
  with narrate_trace [OF n] show ?thesis
    by (auto simp: downloads_append graphs_append downloads_requests graphs_requests min.commute)
qed

text \<open>
  Claim C2. For one to five fragments the graph holds one segment per fragment, all with the
  same slice \<open>25 / n\<close> as JavaScript computes it; the slices add up, in JavaScript arithmetic,
  to exactly 25 seconds. The slice is the exact quotient except for three fragments, where it
  is the binary64 value nearest to \<open>25 / 3\<close>, less than \<open>2^-50\<close> seconds away. A run that
  renders downloads the first five links of the list, in order, and no others, and its graph
  has as many segments.
\<close>

theorem equal_slices_sum_to_total_duration:
  "(1 \<le> n \<and> n \<le> 5 \<longrightarrow>
      slices (complexFilter n voice music) = replicate n (segmentDuration n) \<and>
      value_of (foldl js_add (js_nat 0) (slices (complexFilter n voice music))) = 25 \<and>
      \<bar>value_of (segmentDuration n) - 25 / of_nat n\<bar> \<le> 1 / 2 ^ 50 \<and>
      (n \<noteq> 3 \<longrightarrow> value_of (segmentDuration n) = 25 / of_nat n)) \<and>
   (renderStage env w req subject script overlays urls terms = (Inr resp, w') \<longrightarrow>
      downloads (trace w') = downloads (trace w) @ take 5 urls \<and>
      (\<exists>v m. graphs (trace w') = graphs (trace w) @ [complexFilter (min 5 (length urls)) v m]))"
  using slices_for_one_to_five [of n] renderStage_success
  by (simp add: slices_complexFilter)

lemma digit_chars:
  "char_of (48::nat) = CHR ''0''" "char_of (49::nat) = CHR ''1''" "char_of (50::nat) = CHR ''2''"
  "char_of (51::nat) = CHR ''3''" "char_of (52::nat) = CHR ''4''" "char_of (53::nat) = CHR ''5''"
  "char_of (54::nat) = CHR ''6''" "char_of (55::nat) = CHR ''7''" "char_of (56::nat) = CHR ''8''"
  "char_of (57::nat) = CHR ''9''"
  by code_simp+

lemma decimal_values:
  "decimal 0 = ''0''" "decimal (Suc 0) = ''1''" "decimal (Suc (Suc 0)) = ''2''"
  "decimal (Suc (Suc (Suc 0))) = ''3''" "decimal (Suc (Suc (Suc (Suc 0)))) = ''4''"
  "decimal 1700000000000 = ''1700000000000''"
  by (simp_all add: decimal.simps digit_chars)

lemma decimal_totalDuration: "decimal 25 = ''25''"
  by (simp add: decimal.simps digit_chars)

lemma audioFilters_by_presence:
  "audioFilters n voice music =
     (case (truthy voice, truthy music) of
        (True, True) \<Rightarrow>
          [AudioTrack n (12 / 10) 25 ''voice'', AudioTrack (n + 1) (15 / 100) 25 ''music'',
           Amix [''voice'', ''music''] ''shortest'' ''outa'']
      | (True, False) \<Rightarrow> [AudioTrack n (11 / 10) 25 ''outa'']
      | (False, True) \<Rightarrow> [AudioTrack n (4 / 10) 25 ''outa'']
      | (False, False) \<Rightarrow> []) \<and>
   filter (\<lambda>opt. opt = ''[outa]'') (outputOptions voice music) =
     (if truthy voice \<or> truthy music then [''[outa]''] else []) \<and>
   complexFilter n voice music = videoFilters n @ audioFilters n voice music \<and>
   createVideoWithSubtitles env w urls overlays voice music subs ts subject =
     createVideoWithSubtitles env w urls overlays' voice music subs' ts subject"
  by (simp add: audioFilters_def outputOptions_def totalDuration_def complexFilter_def
      createVideoWithSubtitles_def decimal_totalDuration)

lemma createVideo_hands_plan_to_transcoder:
  assumes run: "createVideoWithSubtitles env w urls overlays voice music subs ts subject = (r, w')"
    and dl: "downloadAll env urls 0 [] w = (Inr files, w1)"
  shows "trace w' = trace w1 @
           [TranscoderRun (ffmpegInputs files voice music)
              (complexFilter (length files) voice music) (outputOptions voice music)]"
  using run dl
  by (auto simp: createVideoWithSubtitles_def Let_def log_event_def trace_unlink
      trace_fold_unlink split: option.splits if_splits)

text \<open>
  Claim C3. Every run of \<open>createVideoWithSubtitles\<close> whose downloads succeed hands the
  transcoder the clips followed by the narration and the music that are present, and a graph
  whose audio part is one of four variants chosen by the pair (narration present, music
  present) alone: both give the narration, input \<open>n\<close>, at gain 1.2 and the music, input
  \<open>n + 1\<close>, at gain 0.15, mixed until the shorter stream ends; narration alone has gain 1.1,
  music alone gain 0.4, each as input \<open>n\<close>; neither gives no audio filter and no audio
  mapping in the output options. Every track is trimmed to the 25 seconds of the total
  duration. The number \<open>n\<close> of clips only numbers the audio inputs; the script lines, the
  subtitle flag, the time stamp and the subject do not occur in the plan.
\<close>

theorem audio_mix_plan_four_variants:
  assumes "createVideoWithSubtitles env w urls overlays voice music subs ts subject = (r, w')"
    and "downloadAll env urls 0 [] w = (Inr files, w1)"
  shows "length files = length urls \<and>
     (\<exists>inputs graph options.
        trace w' = trace w @ map DownloadRequest urls @ [TranscoderRun inputs graph options] \<and>
        (\<forall>v m. voice = Some v \<and> v \<noteq> '''' \<and> music = Some m \<and> m \<noteq> '''' \<longrightarrow>
           inputs = files @ [v, m] \<and>
           graph = videoFilters (length files) @
             [AudioTrack (length files) (12 / 10) 25 ''voice'',
              AudioTrack (length files + 1) (15 / 100) 25 ''music'',
              Amix [''voice'', ''music''] ''shortest'' ''outa''] \<and>
           filter (\<lambda>opt. opt = ''[outa]'') options = [''[outa]'']) \<and>
        (\<forall>v. voice = Some v \<and> v \<noteq> '''' \<and> \<not> truthy music \<longrightarrow>
           inputs = files @ [v] \<and>
           graph = videoFilters (length files) @ [AudioTrack (length files) (11 / 10) 25 ''outa''] \<and>
           filter (\<lambda>opt. opt = ''[outa]'') options = [''[outa]'']) \<and>
        (\<forall>m. \<not> truthy voice \<and> music = Some m \<and> m \<noteq> '''' \<longrightarrow>
           inputs = files @ [m] \<and>
           graph = videoFilters (length files) @ [AudioTrack (length files) (4 / 10) 25 ''outa''] \<and>
           filter (\<lambda>opt. opt = ''[outa]'') options = [''[outa]'']) \<and>
        (\<not> truthy voice \<and> \<not> truthy music \<longrightarrow>
           inputs = files \<and> graph = videoFilters (length files) \<and>
           filter (\<lambda>opt. opt = ''[outa]'') options = []))"
proof -
  from downloadAll_trace [OF assms(2)]
  have t: "trace w1 = trace w @ map DownloadRequest urls" and l: "length files = length urls"
    by simp_all
  note h = createVideo_hands_plan_to_transcoder [OF assms]
  have a: "voice = Some v \<and> v \<noteq> '''' \<and> music = Some m \<and> m \<noteq> '''' \<longrightarrow>
      ffmpegInputs files voice music = files @ [v, m] \<and>
      complexFilter (length files) voice music = videoFilters (length files) @
             [AudioTrack (length files) (12 / 10) 25 ''voice'',
              AudioTrack (length files + 1) (15 / 100) 25 ''music'',
              Amix [''voice'', ''music''] ''shortest'' ''outa''] \<and>
      filter (\<lambda>opt. opt = ''[outa]'') (outputOptions voice music) = [''[outa]'']" for v m
    by (simp add: ffmpegInputs_def complexFilter_def audioFilters_def outputOptions_def
        truthy_def totalDuration_def decimal_totalDuration)
  have b: "voice = Some v \<and> v \<noteq> '''' \<and> \<not> truthy music \<longrightarrow>
      ffmpegInputs files voice music = files @ [v] \<and>
      complexFilter (length files) voice music =
        videoFilters (length files) @ [AudioTrack (length files) (11 / 10) 25 ''outa''] \<and>
      filter (\<lambda>opt. opt = ''[outa]'') (outputOptions voice music) = [''[outa]'']" for v
    by (auto simp: ffmpegInputs_def complexFilter_def audioFilters_def outputOptions_def
        truthy_def totalDuration_def decimal_totalDuration split: option.splits)
  have c: "\<not> truthy voice \<and> music = Some m \<and> m \<noteq> '''' \<longrightarrow>
      ffmpegInputs files voice music = files @ [m] \<and>
      complexFilter (length files) voice music =
        videoFilters (length files) @ [AudioTrack (length files) (4 / 10) 25 ''outa''] \<and>
      filter (\<lambda>opt. opt = ''[outa]'') (outputOptions voice music) = [''[outa]'']" for m
    by (auto simp: ffmpegInputs_def complexFilter_def audioFilters_def outputOptions_def
        truthy_def totalDuration_def decimal_totalDuration split: option.splits)
  have d: "\<not> truthy voice \<and> \<not> truthy music \<longrightarrow>
      ffmpegInputs files voice music = files \<and>
      complexFilter (length files) voice music = videoFilters (length files) \<and>
      filter (\<lambda>opt. opt = ''[outa]'') (outputOptions voice music) = []"
    by (auto simp: ffmpegInputs_def complexFilter_def audioFilters_def outputOptions_def
        truthy_def totalDuration_def decimal_totalDuration split: option.splits)
  from h t have "trace w' = trace w @ map DownloadRequest urls @
      [TranscoderRun (ffmpegInputs files voice music) (complexFilter (length files) voice music)
         (outputOptions voice music)]"
    by simp
  with a b c d l show ?thesis by blast
qed

lemma sample_download:
  "downloadAll sample_env [''u1''] 0 [] fresh_world =
     (Inr [''/tmp/clip-0.mp4''],
      \<lparr>trace = [DownloadRequest ''u1''], disk = {''/tmp/clip-0.mp4''}\<rparr>)"
  by (simp add: sample_env_def fresh_world_def Let_def log_event_def path_join_def
      decimal_values)

theorem audio_mix_plan_four_variants_witness:
  "(\<exists>options.
      trace (snd (createVideoWithSubtitles sample_env fresh_world [''u1''] [] (Some ''/tmp/v.mp3'')
                    (Some ''/srv/app/public/music/a.mp3'') True 1 ''x'')) =
        [DownloadRequest ''u1'',
         TranscoderRun [''/tmp/clip-0.mp4'', ''/tmp/v.mp3'', ''/srv/app/public/music/a.mp3'']
           (videoFilters 1 @ [AudioTrack 1 (12 / 10) 25 ''voice'', AudioTrack 2 (15 / 100) 25 ''music'',
                              Amix [''voice'', ''music''] ''shortest'' ''outa''])
           options] \<and>
      filter (\<lambda>opt. opt = ''[outa]'') options = [''[outa]'']) \<and>
   (\<exists>options.
      trace (snd (createVideoWithSubtitles sample_env fresh_world [''u1''] [] (Some ''/tmp/v.mp3'')
                    None True 1 ''x'')) =
        [DownloadRequest ''u1'',
         TranscoderRun [''/tmp/clip-0.mp4'', ''/tmp/v.mp3'']
           (videoFilters 1 @ [AudioTrack 1 (11 / 10) 25 ''outa'']) options]) \<and>
   (\<exists>options.
      trace (snd (createVideoWithSubtitles sample_env fresh_world [''u1''] [] None
                    (Some ''/srv/app/public/music/a.mp3'') True 1 ''x'')) =
        [DownloadRequest ''u1'',
         TranscoderRun [''/tmp/clip-0.mp4'', ''/srv/app/public/music/a.mp3'']
           (videoFilters 1 @ [AudioTrack 1 (4 / 10) 25 ''outa'']) options]) \<and>
   (\<exists>options.
      trace (snd (createVideoWithSubtitles sample_env fresh_world [''u1''] [] None None True 1
                    ''x'')) =
        [DownloadRequest ''u1'', TranscoderRun [''/tmp/clip-0.mp4''] (videoFilters 1) options] \<and>
      filter (\<lambda>opt. opt = ''[outa]'') options = [])"
proof -
  have run: "createVideoWithSubtitles sample_env fresh_world [''u1''] [] voice music True 1 ''x'' =
      (fst (createVideoWithSubtitles sample_env fresh_world [''u1''] [] voice music True 1 ''x''),
       snd (createVideoWithSubtitles sample_env fresh_world [''u1''] [] voice music True 1 ''x''))"
    for voice music
    by simp
  have t: "truthy (Some ''/tmp/v.mp3'')" "truthy (Some ''/srv/app/public/music/a.mp3'')"
    "\<not> truthy None"
    by (simp_all add: truthy_def)
  from audio_mix_plan_four_variants [OF run sample_download,
      of "Some ''/tmp/v.mp3''" "Some ''/srv/app/public/music/a.mp3''"]
  have a: "\<exists>options.
      trace (snd (createVideoWithSubtitles sample_env fresh_world [''u1''] [] (Some ''/tmp/v.mp3'')
                    (Some ''/srv/app/public/music/a.mp3'') True 1 ''x'')) =
        [DownloadRequest ''u1'',
         TranscoderRun [''/tmp/clip-0.mp4'', ''/tmp/v.mp3'', ''/srv/app/public/music/a.mp3'']
           (videoFilters 1 @ [AudioTrack 1 (12 / 10) 25 ''voice'', AudioTrack 2 (15 / 100) 25 ''music'',
                              Amix [''voice'', ''music''] ''shortest'' ''outa''])
           options] \<and>
      filter (\<lambda>opt. opt = ''[outa]'') options = [''[outa]'']"
    by (auto simp: fresh_world_def)
  from audio_mix_plan_four_variants [OF run sample_download, of "Some ''/tmp/v.mp3''" None] t
  have b: "\<exists>options.
      trace (snd (createVideoWithSubtitles sample_env fresh_world [''u1''] [] (Some ''/tmp/v.mp3'')
                    None True 1 ''x'')) =
        [DownloadRequest ''u1'',
         TranscoderRun [''/tmp/clip-0.mp4'', ''/tmp/v.mp3'']
           (videoFilters 1 @ [AudioTrack 1 (11 / 10) 25 ''outa'']) options]"
    by (auto simp: fresh_world_def)
  from audio_mix_plan_four_variants [OF run sample_download, of None
      "Some ''/srv/app/public/music/a.mp3''"] t
  have c: "\<exists>options.
      trace (snd (createVideoWithSubtitles sample_env fresh_world [''u1''] [] None
                    (Some ''/srv/app/public/music/a.mp3'') True 1 ''x'')) =
        [DownloadRequest ''u1'',
         TranscoderRun [''/tmp/clip-0.mp4'', ''/srv/app/public/music/a.mp3'']
           (videoFilters 1 @ [AudioTrack 1 (4 / 10) 25 ''outa'']) options]"
    by (auto simp: fresh_world_def)
  from audio_mix_plan_four_variants [OF run sample_download, of None None] t
  have d: "\<exists>options.
      trace (snd (createVideoWithSubtitles sample_env fresh_world [''u1''] [] None None True 1
                    ''x'')) =
        [DownloadRequest ''u1'', TranscoderRun [''/tmp/clip-0.mp4''] (videoFilters 1) options] \<and>
      filter (\<lambda>opt. opt = ''[outa]'') options = []"
    by (auto simp: fresh_world_def)
  from a b c d show ?thesis by blast
qed

theorem equal_slices_sum_to_total_duration_witness:
  "(1::nat) \<le> 3 \<and> (3::nat) \<le> 5 \<and>
   value_of (foldl js_add (js_nat 0) (slices (complexFilter 3 None None))) = 25 \<and>
   (\<exists>resp w'.
      renderStage sample_env fresh_world (sample_request\<lparr>req_audioOption := Some ''none''\<rparr>)
        ''Magic Glow Serum'' ''LINE: a'' [''a'']
        [''u1'', ''u2'', ''u3'', ''u4'', ''u5'', ''u6''] [] = (Inr resp, w') \<and>
      downloads (trace w') = [''u1'', ''u2'', ''u3'', ''u4'', ''u5''])"
proof -
  let ?req = "sample_request\<lparr>req_audioOption := Some ''none''\<rparr>"
  let ?urls = "[''u1'', ''u2'', ''u3'', ''u4'', ''u5'', ''u6'']"
  have "\<exists>resp w'. renderStage sample_env fresh_world ?req ''Magic Glow Serum'' ''LINE: a'' [''a'']
          ?urls [] = (Inr resp, w')"
    by (simp add: renderStage_def narrate_def createVideoWithSubtitles_def sample_env_def
        sample_request_def fresh_world_def selectMusic_def Let_def log_event_def)
  then obtain resp w' where r: "renderStage sample_env fresh_world ?req ''Magic Glow Serum''
      ''LINE: a'' [''a''] ?urls [] = (Inr resp, w')"
    by blast
  have n: "(1::nat) \<le> 3 \<and> (3::nat) \<le> 5" by simp
  from equal_slices_sum_to_total_duration [where n = 3 and voice = None and music = None
      and env = sample_env and w = fresh_world and req = ?req and subject = "''Magic Glow Serum''"
      and script = "''LINE: a''" and overlays = "[''a'']" and urls = ?urls and terms = "[]"
      and resp = resp and w' = w'] n r
  have a: "value_of (foldl js_add (js_nat 0) (slices (complexFilter 3 None None))) = 25"
    and b: "downloads (trace w') = downloads (trace fresh_world) @ take 5 ?urls"
    by blast+
  from b have "downloads (trace w') = [''u1'', ''u2'', ''u3'', ''u4'', ''u5'']"
    by (simp add: fresh_world_def)
  with r a n show ?thesis by blast
qed

section \<open>The asset stage\<close>

lemma renderer_invoked_log:
  "renderer_invoked (log_event e w) \<longleftrightarrow> renderer_invoked w \<or> renderer_event e"
  by (simp add: renderer_invoked_def log_event_def)

lemma disk_log: "disk (log_event e w) = disk w"
  by (simp add: log_event_def)

lemma generateAiContent_quiet:
  "generateAiContent env w prompt = (r, w') \<Longrightarrow> renderer_invoked w' = renderer_invoked w \<and> disk w' = disk w"
  by (auto simp: generateAiContent_def Let_def renderer_invoked_log disk_log
      split: sum.splits option.splits)

lemma getPexels_quiet:
  "getPexelsVideoForLine env w cue subject = (r, w') \<Longrightarrow>
   renderer_invoked w' = renderer_invoked w \<and> disk w' = disk w"
  by (auto simp: getPexelsVideoForLine_def Let_def renderer_invoked_log disk_log
      split: sum.splits if_splits)

lemma getPexels_with_key:
  "truthy (pexelsApiKey env) \<Longrightarrow> \<exists>r. fst (getPexelsVideoForLine env w cue subject) = Inr r"
  by (simp add: getPexelsVideoForLine_def Let_def split: sum.splits)

lemma getPexels_without_key:
  "\<not> truthy (pexelsApiKey env) \<Longrightarrow>
   getPexelsVideoForLine env w cue subject = (Inl PexelsKeyMissing, w)"
  by (simp add: getPexelsVideoForLine_def)

lemma getPexels_error:
  "getPexelsVideoForLine env w cue subject = (Inl e, w') \<Longrightarrow>
   e = PexelsKeyMissing \<and> \<not> truthy (pexelsApiKey env)"
  by (auto simp: getPexelsVideoForLine_def Let_def split: sum.splits if_splits)

lemma primaryLoop_quiet:
  "primaryLoop env subject moodText lines acc w = (r, w') \<Longrightarrow>
   renderer_invoked w' = renderer_invoked w \<and> disk w' = disk w"
proof (induction lines arbitrary: acc w)
  case Nil
  then show ?case by simp
next
  case (Cons line rest)
  obtain videoUrls terms where acc: "acc = (videoUrls, terms)" by (cases acc)
  obtain a w1 where ai: "generateAiContent env w (visualPrompt subject moodText line) = (a, w1)"
    by (cases "generateAiContent env w (visualPrompt subject moodText line)")
  note r1 = generateAiContent_quiet [OF ai]
  show ?case
  proof (cases a)
    case (Inl e)
    with Cons.prems acc ai have "primaryLoop env subject moodText rest (videoUrls, terms) w1 = (r, w')"
      by simp
    from Cons.IH [OF this] r1 show ?thesis by simp
  next
    case (Inr answer)
    obtain p w2 where px: "getPexelsVideoForLine env w1 (trim answer) subject = (p, w2)"
      by (cases "getPexelsVideoForLine env w1 (trim answer) subject")
    note r2 = getPexels_quiet [OF px]
    from Cons.prems acc ai Inr px obtain acc' where
      "primaryLoop env subject moodText rest acc' w2 = (r, w')"
      by (auto simp: Let_def split: sum.splits option.splits if_splits)
    from Cons.IH [OF this] r1 r2 show ?thesis by simp
  qed
qed

lemma primaryLoop_without_key:
  "\<not> truthy (pexelsApiKey env) \<Longrightarrow>
   fst (fst (primaryLoop env subject moodText lines (videoUrls, terms) w)) = videoUrls"
proof (induction lines arbitrary: terms w)
  case Nil
  then show ?case by simp
next
  case (Cons line rest)
  then show ?case
    by (auto simp: Let_def getPexels_without_key split: sum.splits prod.splits)
qed

lemma fallbackLoop_quiet:
  "fallbackLoop env subject searches videoUrls w = (r, w') \<Longrightarrow>
   renderer_invoked w' = renderer_invoked w \<and> disk w' = disk w"
proof (induction searches arbitrary: videoUrls w)
  case Nil
  then show ?case by simp
next
  case (Cons search rest)
  show ?case
  proof (cases "5 \<le> length videoUrls")
    case True
    with Cons.prems show ?thesis by simp
  next
    case False
    obtain p w1 where px: "getPexelsVideoForLine env w search subject = (p, w1)"
      by (cases "getPexelsVideoForLine env w search subject")
    note r1 = getPexels_quiet [OF px]
    show ?thesis
    proof (cases p)
      case (Inl e)
      with Cons.prems False px r1 show ?thesis by simp
    next
      case (Inr v)
      with Cons.prems False px obtain urls' where
        "fallbackLoop env subject rest urls' w1 = (r, w')"
        by (auto split: option.splits if_splits)
      from Cons.IH [OF this] r1 show ?thesis by simp
    qed
  qed
qed

lemma fallbackLoop_with_key:
  "truthy (pexelsApiKey env) \<Longrightarrow>
   \<exists>urls. fst (fallbackLoop env subject searches videoUrls w) = Inr urls"
proof (induction searches arbitrary: videoUrls w)
  case Nil
  then show ?case by simp
next
  case (Cons search rest)
  obtain p w1 where px: "getPexelsVideoForLine env w search subject = (p, w1)"
    by (cases "getPexelsVideoForLine env w search subject")
  with getPexels_with_key [OF Cons.prems, of w search subject] obtain v where "p = Inr v"
    by auto
  with px Cons.IH [OF Cons.prems] show ?case
    by (auto split: option.splits)
qed

lemma fallbackLoop_error:
  "fallbackLoop env subject searches videoUrls w = (Inl e, w') \<Longrightarrow>
   e = PexelsKeyMissing \<and> \<not> truthy (pexelsApiKey env)"
proof (induction searches arbitrary: videoUrls w)
  case Nil
  then show ?case by simp
next
  case (Cons search rest)
  obtain p w1 where px: "getPexelsVideoForLine env w search subject = (p, w1)"
    by (cases "getPexelsVideoForLine env w search subject")
  show ?case
  proof (cases p)
    case (Inl e')
    with Cons.prems px getPexels_error [of env w search subject e' w1] show ?thesis
      by (auto split: if_splits)
  next
    case (Inr v)
    with Cons.prems px obtain urls' where "fallbackLoop env subject rest urls' w1 = (Inl e, w')"
      by (auto split: option.splits if_splits)
    from Cons.IH [OF this] show ?thesis .
  qed
qed

lemma fallbackLoop_distinct:
  "distinct videoUrls \<Longrightarrow> fallbackLoop env subject searches videoUrls w = (Inr urls, w') \<Longrightarrow>
   distinct urls"
proof (induction searches arbitrary: videoUrls w)
  case Nil
  then show ?case by simp
next
  case (Cons search rest)
  show ?case
  proof (cases "5 \<le> length videoUrls")
    case True
    with Cons.prems show ?thesis by simp
  next
    case False
    obtain p w1 where px: "getPexelsVideoForLine env w search subject = (p, w1)"
      by (cases "getPexelsVideoForLine env w search subject")
    with Cons.prems False obtain urls' where
      "fallbackLoop env subject rest urls' w1 = (Inr urls, w')" "distinct urls'"
      by (auto split: sum.splits option.splits if_splits)
    then show ?thesis using Cons.IH by blast
  qed
qed

lemma accumulateAssets_quiet:
  "accumulateAssets env w subject moodText overlays = (r, w') \<Longrightarrow>
   renderer_invoked w' = renderer_invoked w \<and> disk w' = disk w"
  by (auto simp: accumulateAssets_def split: prod.splits if_splits sum.splits
      dest: primaryLoop_quiet fallbackLoop_quiet)

lemma accumulateAssets_with_key:
  assumes "truthy (pexelsApiKey env)"
  shows "\<exists>urls terms. fst (accumulateAssets env w subject moodText overlays) = Inr (urls, terms)"
proof -
  obtain videoUrls terms w1 where
    p: "primaryLoop env subject moodText (take (min (length overlays) 5) overlays) ([], []) w =
          ((videoUrls, terms), w1)"
    by (metis prod.exhaust)
  from fallbackLoop_with_key [OF assms, of subject "fallbackSearches subject moodText" videoUrls w1]
  obtain urls where "fst (fallbackLoop env subject (fallbackSearches subject moodText) videoUrls w1)
    = Inr urls" by blast
  with p show ?thesis
    by (auto simp: accumulateAssets_def split: prod.splits sum.splits)
qed

lemma accumulateAssets_error:
  assumes "accumulateAssets env w subject moodText overlays = (Inl e, w')"
  shows "e = PexelsKeyMissing \<and> \<not> truthy (pexelsApiKey env) \<and>
         fst (fst (primaryLoop env subject moodText (take (min (length overlays) 5) overlays)
                     ([], []) w)) = []"
proof -
  from assms obtain videoUrls w1 where
    "fallbackLoop env subject (fallbackSearches subject moodText) videoUrls w1 = (Inl e, w')"
    by (auto simp: accumulateAssets_def split: prod.splits if_splits sum.splits)
  from fallbackLoop_error [OF this] primaryLoop_without_key show ?thesis by blast
qed

section \<open>The handler\<close>

lemma downloadAll_error:
  "downloadAll env urls i files w = (Inl e, w') \<Longrightarrow> \<exists>message. e = RenderError message"
proof (induction urls arbitrary: i files w)
  case Nil
  then show ?case by simp
next
  case (Cons url urls)
  then show ?case
    by (auto simp: Let_def split: sum.splits)
qed

lemma createVideo_error:
  "createVideoWithSubtitles env w urls overlays voice music subs ts subject = (Inl e, w') \<Longrightarrow>
   \<exists>message. e = RenderError message"
  by (auto simp: createVideoWithSubtitles_def Let_def split: prod.splits sum.splits option.splits
      dest: downloadAll_error)

lemma renderStage_error:
  "renderStage env w req subject script overlays urls terms = (Inl e, w') \<Longrightarrow>
   (\<exists>message. e = VoiceoverFailed message) \<or> (\<exists>message. e = RenderError message)"
  by (auto simp: renderStage_def narrate_def generateVoice_def Let_def
      split: prod.splits sum.splits if_splits dest: createVideo_error)

lemma generate_with_mood:
  assumes "req_mood req = Some m"
  shows "generate env w req =
     (case accumulateAssets env w (finalProductName req) m
             (textOverlays (join_lines (scriptLines (finalProductName req) m))) of
        (Inl e, w1) \<Rightarrow> (Inl e, w1)
      | (Inr (videoUrls, terms), w1) \<Rightarrow>
          if length videoUrls = 0 then (Inl (NoVideosFound (finalProductName req)), w1)
          else renderStage env w1 req (finalProductName req)
                 (join_lines (scriptLines (finalProductName req) m))
                 (textOverlays (join_lines (scriptLines (finalProductName req) m)))
                 videoUrls terms)"
  using assms
  by (simp add: generate_def generateEnhancedScript_def Let_def length_textOverlays)

text \<open>
  Claim C6. In a run that passes the script stage, a list of links that is still empty after
  the per-line searches and the whole fallback sequence ends the run with the error
  \<open>NoVideosFound\<close>, and the run has invoked the renderer no more than the world before it
  had. That error arises in no other way; with at least one link the run goes on to audio
  and rendering. The only other way the asset stage ends a run is the missing search key,
  and then no link had been found either.
\<close>

theorem no_assets_is_fatal_and_skips_renderer:
  assumes "req_mood req = Some m"
    and "subject = finalProductName req"
    and "script = join_lines (scriptLines subject m)"
    and "overlays = textOverlays script"
  shows
    "(accumulateAssets env w subject m overlays = (Inr ([], terms), w1) \<longrightarrow>
        generate env w req = (Inl (NoVideosFound subject), w1) \<and>
        renderer_invoked w1 = renderer_invoked w) \<and>
     (fst (generate env w req) = Inl (NoVideosFound s) \<longrightarrow>
        (\<exists>terms' w2. accumulateAssets env w subject m overlays = (Inr ([], terms'), w2))) \<and>
     (accumulateAssets env w subject m overlays = (Inr (urls, terms), w1) \<and> urls \<noteq> [] \<longrightarrow>
        generate env w req = renderStage env w1 req subject script overlays urls terms) \<and>
     (accumulateAssets env w subject m overlays = (Inl e, w1) \<longrightarrow>
        generate env w req = (Inl e, w1) \<and> e = PexelsKeyMissing \<and>
        renderer_invoked w1 = renderer_invoked w \<and>
        fst (fst (primaryLoop env subject m (take (min (length overlays) 5) overlays)
                    ([], []) w)) = [])"
proof -
  note g = generate_with_mood [OF assms(1), of env w, folded assms(2), folded assms(3),
      folded assms(4)]
  have a: "generate env w req = (Inl (NoVideosFound subject), w1) \<and>
           renderer_invoked w1 = renderer_invoked w"
    if "accumulateAssets env w subject m overlays = (Inr ([], terms), w1)"
    using that g accumulateAssets_quiet [OF that] by simp
  have b: "\<exists>terms' w2. accumulateAssets env w subject m overlays = (Inr ([], terms'), w2)"
    if f: "fst (generate env w req) = Inl (NoVideosFound s)"
  proof -
    obtain r w2 where acc: "accumulateAssets env w subject m overlays = (r, w2)"
      by (cases "accumulateAssets env w subject m overlays")
    show ?thesis
    proof (cases r)
      case (Inl e')
      with acc accumulateAssets_error [of env w subject m overlays e' w2] g f
      show ?thesis by simp
    next
      case (Inr p)
      obtain us ts where p: "p = (us, ts)" by (cases p)
      show ?thesis
      proof (cases "us = []")
        case True
        with acc Inr p show ?thesis by simp
      next
        case False
        with acc Inr p g have "generate env w req =
            renderStage env w2 req subject script overlays us ts" by simp
        with f obtain w3 where
          "renderStage env w2 req subject script overlays us ts = (Inl (NoVideosFound s), w3)"
          by (metis fst_conv prod.exhaust)
        from renderStage_error [OF this] show ?thesis by simp
      qed
    qed
  qed
  have c: "generate env w req = renderStage env w1 req subject script overlays urls terms"
    if "accumulateAssets env w subject m overlays = (Inr (urls, terms), w1)" "urls \<noteq> []"
    using that g by simp
  have d: "generate env w req = (Inl e, w1) \<and> e = PexelsKeyMissing \<and>
        renderer_invoked w1 = renderer_invoked w \<and>
        fst (fst (primaryLoop env subject m (take (min (length overlays) 5) overlays)
                    ([], []) w)) = []"
    if "accumulateAssets env w subject m overlays = (Inl e, w1)"
    using that g accumulateAssets_quiet [OF that] accumulateAssets_error [OF that] by simp
  from a b c d show ?thesis by blast
qed

text \<open>
  Claim C7. A search request is only sent when the search key is set. Then an error of the
  first search, or of the second search made when the first has no candidates, is caught
  and the resolver returns \<open>None\<close>; the resolver never throws, and neither does the asset
  stage as a whole, whatever the searches and the text generation answer, so that a cue
  without a result never ends the run by itself.
\<close>

theorem search_errors_become_none:
  assumes "truthy (pexelsApiKey env)"
  shows
    "(pexelsSearch env (length (trace w)) (subject @ '' '' @ cue) = Inl message \<longrightarrow>
        fst (getPexelsVideoForLine env w cue subject) = Inr None) \<and>
     (pexelsSearch env (length (trace w)) (subject @ '' '' @ cue) = Inr vs \<and>
      (vs = None \<or> vs = Some []) \<and>
      pexelsSearch env (Suc (length (trace w))) cue = Inl message \<longrightarrow>
        fst (getPexelsVideoForLine env w cue subject) = Inr None) \<and>
     (\<exists>r. fst (getPexelsVideoForLine env w cue subject) = Inr r) \<and>
     (\<exists>urls terms. fst (accumulateAssets env w subject moodText overlays) = Inr (urls, terms))"
  using assms getPexels_with_key [OF assms, of w cue subject]
    accumulateAssets_with_key [OF assms, of w subject moodText overlays]
  by (auto simp: getPexelsVideoForLine_def Let_def log_event_def)

lemma renderStage_ignores_productName:
  "renderStage env w (req\<lparr>req_productName := name\<rparr>) subject script overlays urls terms =
   renderStage env w req subject script overlays urls terms"
  by (simp add: renderStage_def Let_def split: prod.splits sum.splits)

text \<open>
  Claim C10. A request that carries neither a product name nor a product address (each
  absent or empty) is not rejected: the subject is the text \<open>Amazing Product\<close>, the run is
  the run of the same request with that product name, and with a mood it passes the script
  stage and enters the asset stage for that subject.
\<close>

theorem missing_subject_defaults_to_amazing_product:
  assumes "\<not> truthy (req_productName req)" and "\<not> truthy (req_productUrl req)"
  shows
    "finalProductName req = ''Amazing Product'' \<and>
     generate env w req = generate env w (req\<lparr>req_productName := Some ''Amazing Product''\<rparr>) \<and>
     (req_mood req = Some m \<longrightarrow>
        generate env w req =
          (case accumulateAssets env w ''Amazing Product'' m
                  (textOverlays (join_lines (scriptLines ''Amazing Product'' m))) of
             (Inl e, w1) \<Rightarrow> (Inl e, w1)
           | (Inr (videoUrls, terms), w1) \<Rightarrow>
               if length videoUrls = 0 then (Inl (NoVideosFound ''Amazing Product''), w1)
               else renderStage env w1 req ''Amazing Product''
                      (join_lines (scriptLines ''Amazing Product'' m))
                      (textOverlays (join_lines (scriptLines ''Amazing Product'' m)))
                      videoUrls terms))"
proof -
  from assms have f: "finalProductName req = ''Amazing Product''"
    by (auto simp: finalProductName_def js_or_def truthy_def split: option.splits)
  have f': "finalProductName (req\<lparr>req_productName := Some ''Amazing Product''\<rparr>) =
      ''Amazing Product''"
    by (simp add: finalProductName_def js_or_def)
  have "generate env w req = generate env w (req\<lparr>req_productName := Some ''Amazing Product''\<rparr>)"
    by (simp add: generate_def f f' renderStage_ignores_productName Let_def
        split: prod.splits sum.splits)
  moreover have "req_mood req = Some m \<longrightarrow>
        generate env w req =
          (case accumulateAssets env w ''Amazing Product'' m
                  (textOverlays (join_lines (scriptLines ''Amazing Product'' m))) of
             (Inl e, w1) \<Rightarrow> (Inl e, w1)
           | (Inr (videoUrls, terms), w1) \<Rightarrow>
               if length videoUrls = 0 then (Inl (NoVideosFound ''Amazing Product''), w1)
               else renderStage env w1 req ''Amazing Product''
                      (join_lines (scriptLines ''Amazing Product'' m))
                      (textOverlays (join_lines (scriptLines ''Amazing Product'' m)))
                      videoUrls terms)"
    using generate_with_mood [of req m env w, unfolded f] by blast
  ultimately show ?thesis using f by blast
qed

section \<open>Runs in particular environments\<close>

lemma accumulateAssets_without_key:
  assumes "\<not> truthy (pexelsApiKey env)"
  shows "\<exists>w1. accumulateAssets env w subject moodText overlays = (Inl PexelsKeyMissing, w1)"
proof -
  obtain videoUrls terms w1 where
    p: "primaryLoop env subject moodText (take (min (length overlays) 5) overlays) ([], []) w =
          ((videoUrls, terms), w1)"
    by (metis prod.exhaust)
  from primaryLoop_without_key [OF assms, of subject moodText
      "take (min (length overlays) 5) overlays" "[]" "[]" w] p
  have "videoUrls = []" by simp
  with p assms show ?thesis
    by (simp add: accumulateAssets_def fallbackSearches_def getPexels_without_key)
qed

lemma getPexels_no_candidates:
  assumes "truthy (pexelsApiKey env)" and "\<And>n q. pexelsSearch env n q = Inr (Some [])"
  shows "fst (getPexelsVideoForLine env w cue subject) = Inr None"
  using assms by (simp add: getPexelsVideoForLine_def Let_def selectHdLink_def)

lemma primaryLoop_no_candidates:
  assumes "truthy (pexelsApiKey env)" and "\<And>n q. pexelsSearch env n q = Inr (Some [])"
  shows "fst (fst (primaryLoop env subject moodText lines (videoUrls, terms) w)) = videoUrls"
proof (induction lines arbitrary: terms w)
  case Nil
  then show ?case by simp
next
  case (Cons line rest)
  obtain a w1 where ai: "generateAiContent env w (visualPrompt subject moodText line) = (a, w1)"
    by (metis prod.exhaust)
  show ?case
  proof (cases a)
    case (Inl e)
    with ai Cons.IH show ?thesis by simp
  next
    case (Inr answer)
    obtain p w2 where px: "getPexelsVideoForLine env w1 (trim answer) subject = (p, w2)"
      by (metis prod.exhaust)
    with getPexels_no_candidates [OF assms, of w1 "trim answer" subject] have "p = Inr None"
      by simp
    with ai Inr px Cons.IH show ?thesis by (simp add: Let_def)
  qed
qed

lemma fallbackLoop_no_candidates:
  assumes "truthy (pexelsApiKey env)" and "\<And>n q. pexelsSearch env n q = Inr (Some [])"
  shows "fst (fallbackLoop env subject searches videoUrls w) = Inr videoUrls"
proof (induction searches arbitrary: w)
  case Nil
  then show ?case by simp
next
  case (Cons search rest)
  obtain p w1 where px: "getPexelsVideoForLine env w search subject = (p, w1)"
    by (metis prod.exhaust)
  with getPexels_no_candidates [OF assms, of w search subject] have "p = Inr None"
    by simp
  with px Cons.IH show ?case by simp
qed

lemma accumulateAssets_no_candidates:
  assumes "truthy (pexelsApiKey env)" and "\<And>n q. pexelsSearch env n q = Inr (Some [])"
  shows "\<exists>terms w1. accumulateAssets env w subject moodText overlays = (Inr ([], terms), w1)"
proof -
  obtain videoUrls terms w1 where
    p: "primaryLoop env subject moodText (take (min (length overlays) 5) overlays) ([], []) w =
          ((videoUrls, terms), w1)"
    by (metis prod.exhaust)
  from primaryLoop_no_candidates [OF assms, of subject moodText
      "take (min (length overlays) 5) overlays" "[]" "[]" w] p
  have v: "videoUrls = []" by simp
  obtain r w2 where f: "fallbackLoop env subject (fallbackSearches subject moodText) [] w1 = (r, w2)"
    by (metis prod.exhaust)
  from fallbackLoop_no_candidates [OF assms, of subject "fallbackSearches subject moodText"
      "[]" w1] f
  have "r = Inr []" by simp
  with p v f show ?thesis by (simp add: accumulateAssets_def)
qed

lemma primaryLoop_same_clip:
  assumes "truthy (pexelsApiKey env)"
    and "\<And>n q. pexelsSearch env n q = Inr (Some [hd_clip])"
    and "\<And>n p. googleModel env n p = Inr keywords"
  shows "fst (primaryLoop env subject moodText lines (videoUrls, terms) w) =
           (videoUrls @ replicate (length lines) ''https://v.example/2-hd.mp4'',
            terms @ replicate (length lines) (trim keywords))"
proof (induction lines arbitrary: videoUrls terms w)
  case Nil
  then show ?case by simp
next
  case (Cons line rest)
  have g: "\<And>w0 cue. fst (getPexelsVideoForLine env w0 cue subject) =
             Inr (Some ''https://v.example/2-hd.mp4'')"
    using assms(1,2)
    by (simp add: getPexelsVideoForLine_def Let_def selectHdLink_def hd_clip_def in_window_def
        is_hd_def truthy_def)
  have g': "p = Inr (Some ''https://v.example/2-hd.mp4'')"
    if "getPexelsVideoForLine env w0 cue subject = (p, w2)" for w0 cue p w2
    using g [of w0 cue] that by simp
  obtain w1 where ai: "generateAiContent env w (visualPrompt subject moodText line) =
      (Inr keywords, w1)"
    using assms(3) by (simp add: generateAiContent_def Let_def)
  obtain p w2 where px: "getPexelsVideoForLine env w1 (trim keywords) subject = (p, w2)"
    by (metis prod.exhaust)
  from g' [OF px] ai px Cons.IH show ?case
    by (simp add: Let_def replicate_append_same)
qed

lemma accumulateAssets_same_clip:
  assumes "truthy (pexelsApiKey env)"
    and "\<And>n q. pexelsSearch env n q = Inr (Some [hd_clip])"
    and "\<And>n p. googleModel env n p = Inr keywords"
    and "5 \<le> length overlays"
  shows "fst (accumulateAssets env w subject moodText overlays) =
           Inr (replicate 5 ''https://v.example/2-hd.mp4'', replicate 5 (trim keywords))"
proof -
  obtain acc w1 where
    p: "primaryLoop env subject moodText (take (min (length overlays) 5) overlays) ([], []) w =
          (acc, w1)"
    by (metis prod.exhaust)
  from primaryLoop_same_clip [OF assms(1-3), of subject moodText
      "take (min (length overlays) 5) overlays" "[]" "[]" w] p assms(4)
  have "acc = (replicate 5 ''https://v.example/2-hd.mp4'', replicate 5 (trim keywords))"
    by (simp add: min_def)
  with p show ?thesis by (simp add: accumulateAssets_def)
qed

lemma no_renderer_no_downloads: "\<not> renderer_invoked w \<Longrightarrow> downloads (trace w) = []"
proof -
  have "\<not> list_ex renderer_event es \<Longrightarrow> downloads es = []" for es
    by (induction es rule: downloads.induct) simp_all
  then show "\<not> renderer_invoked w \<Longrightarrow> downloads (trace w) = []"
    by (simp add: renderer_invoked_def)
qed

lemma sample_subject: "finalProductName sample_request = ''Magic Glow Serum''"
  by (simp add: finalProductName_def js_or_def sample_request_def)

lemma sample_mood: "req_mood sample_request = Some ''funny''"
  by (simp add: sample_request_def)

lemma sample_keywords: "trim ''happy people outdoors'' = ''happy people outdoors''"
  by (simp add: trim_def is_space_def)

lemma fresh_world_quiet: "\<not> renderer_invoked fresh_world" "disk fresh_world = {}"
  by (simp_all add: renderer_invoked_def fresh_world_def)

lemma sample_accumulate:
  assumes "pexelsApiKey env = Some ''key''"
    and "pexelsSearch env = (\<lambda>n q. Inr (Some [hd_clip]))"
    and "googleModel env = (\<lambda>n p. Inr ''happy people outdoors'')"
  shows "\<exists>w1. accumulateAssets env fresh_world ''Magic Glow Serum'' ''funny''
            (textOverlays (join_lines (scriptLines ''Magic Glow Serum'' ''funny''))) =
          (Inr (replicate 5 ''https://v.example/2-hd.mp4'', replicate 5 ''happy people outdoors''),
           w1) \<and> \<not> renderer_invoked w1 \<and> disk w1 = {}"
proof -
  let ?ov = "textOverlays (join_lines (scriptLines ''Magic Glow Serum'' ''funny''))"
  obtain r w1 where a: "accumulateAssets env fresh_world ''Magic Glow Serum'' ''funny'' ?ov = (r, w1)"
    by (metis prod.exhaust)
  have "fst (accumulateAssets env fresh_world ''Magic Glow Serum'' ''funny'' ?ov) =
          Inr (replicate 5 ''https://v.example/2-hd.mp4'', replicate 5 (trim ''happy people outdoors''))"
    by (rule accumulateAssets_same_clip) (simp_all add: assms truthy_def length_textOverlays)
  with a accumulateAssets_quiet [OF a] show ?thesis
    by (simp add: sample_keywords fresh_world_quiet)
qed

lemma sample_render:
  assumes "elevenLabs env = (\<lambda>n t v. Inr ())" and "httpGet env = (\<lambda>n u. Inr ())"
    and "ffmpegRun env = (\<lambda>n i g opts. None)" and "musicDir env = None"
  shows "\<exists>resp w'. renderStage env w sample_request subject script overlays
           (replicate 5 u) terms = (Inr resp, w')"
  by (simp add: renderStage_def narrate_def generateVoice_def createVideoWithSubtitles_def
      assms sample_request_def selectMusic_def Let_def replicate_upto_five)


text \<open>
  Claim C5 at a failing input. When the text generator gives the same keywords for every
  script line, or the search gives the same first candidate, the per-line loop pushes the
  same link once per line: the accumulated list holds one link five times, and the run
  downloads that clip five times. Only the fallback loop tests for a link already held
  (lemma \<open>fallbackLoop_distinct\<close>).
\<close>

theorem primary_searches_accumulate_duplicates:
  "fst (accumulateAssets sample_env fresh_world ''Magic Glow Serum'' ''funny''
          (textOverlays (join_lines (scriptLines ''Magic Glow Serum'' ''funny'')))) =
     Inr ([''https://v.example/2-hd.mp4'', ''https://v.example/2-hd.mp4'',
           ''https://v.example/2-hd.mp4'', ''https://v.example/2-hd.mp4'',
           ''https://v.example/2-hd.mp4''],
          [''happy people outdoors'', ''happy people outdoors'', ''happy people outdoors'',
           ''happy people outdoors'', ''happy people outdoors'']) \<and>
   downloads (trace (snd (generate sample_env fresh_world sample_request))) =
     [''https://v.example/2-hd.mp4'', ''https://v.example/2-hd.mp4'',
      ''https://v.example/2-hd.mp4'', ''https://v.example/2-hd.mp4'',
      ''https://v.example/2-hd.mp4'']"
proof -
  let ?u = "''https://v.example/2-hd.mp4''"
  let ?k = "''happy people outdoors''"
  let ?script = "join_lines (scriptLines ''Magic Glow Serum'' ''funny'')"
  from sample_accumulate [of sample_env] obtain w1 where
    a: "accumulateAssets sample_env fresh_world ''Magic Glow Serum'' ''funny''
          (textOverlays ?script) = (Inr (replicate 5 ?u, replicate 5 ?k), w1)"
    and q: "\<not> renderer_invoked w1"
    by (auto simp: sample_env_def)
  from generate_with_mood [OF sample_mood, of sample_env fresh_world, unfolded sample_subject] a
  have g: "generate sample_env fresh_world sample_request =
      renderStage sample_env w1 sample_request ''Magic Glow Serum'' ?script
        (textOverlays ?script) (replicate 5 ?u) (replicate 5 ?k)"
    by simp
  from sample_render [of sample_env w1 "''Magic Glow Serum''" ?script "textOverlays ?script" ?u
      "replicate 5 ?k"]
  obtain resp w' where r: "renderStage sample_env w1 sample_request ''Magic Glow Serum'' ?script
        (textOverlays ?script) (replicate 5 ?u) (replicate 5 ?k) = (Inr resp, w')"
    by (auto simp: sample_env_def)
  from renderStage_success [OF r] no_renderer_no_downloads [OF q]
  have "downloads (trace w') = replicate 5 ?u" by simp
  with a g r show ?thesis by (simp add: replicate_upto_five)
qed

section \<open>Temporary files\<close>

lemma disk_fold_unlink:
  "(\<And>f. \<not> unlinkFails env f) \<Longrightarrow> disk (fold (unlink env) files w) = disk w - set files"
  by (induction files arbitrary: w) (auto simp: unlink_def)

lemma downloadAll_disk:
  "downloadAll env urls i files w = (r, w') \<Longrightarrow> disk w \<subseteq> disk w'"
proof (induction urls arbitrary: i files w)
  case Nil
  then show ?case by simp
next
  case (Cons url urls)
  show ?case
  proof (cases "httpGet env (length (trace w)) url")
    case (Inl message)
    with Cons.prems show ?thesis by (auto simp: Let_def disk_log)
  next
    case (Inr u)
    with Cons.prems Cons.IH show ?thesis
      by (fastforce simp: Let_def disk_log)
  qed
qed

lemma render_failure_deletes_nothing:
  assumes "createVideoWithSubtitles env w urls overlays voice music subs ts subject = (Inl e, w')"
  shows "disk w \<subseteq> disk w'"
proof -
  obtain r w1 where d: "downloadAll env urls 0 [] w = (r, w1)"
    by (metis prod.exhaust)
  from downloadAll_disk [OF d] have "disk w \<subseteq> disk w1" .
  with assms d show ?thesis
    by (auto simp: createVideoWithSubtitles_def Let_def disk_log
        split: sum.splits option.splits)
qed

lemma render_success_deletes_inputs:
  assumes "createVideoWithSubtitles env w urls overlays voice music subs ts subject = (Inr out, w')"
    and "\<And>f. \<not> unlinkFails env f"
    and "downloadAll env urls 0 [] w = (Inr files, w1)"
  shows "set files \<inter> disk w' = {} \<and> (\<forall>p. voice = Some p \<and> p \<noteq> '''' \<longrightarrow> p \<notin> disk w')"
  using assms
  by (auto simp: createVideoWithSubtitles_def Let_def disk_log disk_fold_unlink unlink_def
      split: option.splits if_splits)

text \<open>
  Claim C4 at a failing input. When the transcoder reports an error, the run ends with that
  error and deletes nothing: the five downloaded clips and the narration file are still on
  disk. The deletions are made in the handler of the transcoder's \<open>end\<close> event only.
\<close>

theorem render_failure_leaves_temporary_files:
  "fst (generate failing_transcoder_env fresh_world sample_request) =
     Inl (RenderError ''ffmpeg exited with code 1'') \<and>
   disk (snd (generate failing_transcoder_env fresh_world sample_request)) =
     {''/tmp/voice-1700000000000.mp3'', ''/tmp/clip-0.mp4'', ''/tmp/clip-1.mp4'',
      ''/tmp/clip-2.mp4'', ''/tmp/clip-3.mp4'', ''/tmp/clip-4.mp4''}"
proof -
  let ?env = "failing_transcoder_env"
  let ?u = "''https://v.example/2-hd.mp4''"
  let ?k = "''happy people outdoors''"
  let ?script = "join_lines (scriptLines ''Magic Glow Serum'' ''funny'')"
  from sample_accumulate [of ?env] obtain w1 where
    a: "accumulateAssets ?env fresh_world ''Magic Glow Serum'' ''funny''
          (textOverlays ?script) = (Inr (replicate 5 ?u, replicate 5 ?k), w1)"
    and d: "disk w1 = {}"
    by (auto simp: sample_env_def failing_transcoder_env_def)
  from generate_with_mood [OF sample_mood, of ?env fresh_world, unfolded sample_subject] a
  have g: "generate ?env fresh_world sample_request =
      renderStage ?env w1 sample_request ''Magic Glow Serum'' ?script
        (textOverlays ?script) (replicate 5 ?u) (replicate 5 ?k)"
    by simp
  have "fst (renderStage ?env w1 sample_request ''Magic Glow Serum'' ?script
        (textOverlays ?script) (replicate 5 ?u) (replicate 5 ?k)) =
          Inl (RenderError ''ffmpeg exited with code 1'') \<and>
        disk (snd (renderStage ?env w1 sample_request ''Magic Glow Serum'' ?script
        (textOverlays ?script) (replicate 5 ?u) (replicate 5 ?k))) =
     {''/tmp/voice-1700000000000.mp3'', ''/tmp/clip-0.mp4'', ''/tmp/clip-1.mp4'',
      ''/tmp/clip-2.mp4'', ''/tmp/clip-3.mp4'', ''/tmp/clip-4.mp4''}"
    by (simp add: renderStage_def narrate_def generateVoice_def createVideoWithSubtitles_def
        sample_env_def failing_transcoder_env_def sample_request_def selectMusic_def Let_def
        replicate_upto_five path_join_def decimal_values d disk_log insert_commute)
  with g show ?thesis by simp
qed

theorem no_assets_is_fatal_and_skips_renderer_witness:
  "req_mood sample_request = Some ''funny'' \<and>
   (\<exists>terms w1.
      accumulateAssets (sample_env\<lparr>pexelsSearch := (\<lambda>n q. Inr (Some []))\<rparr>) fresh_world
        ''Magic Glow Serum'' ''funny''
        (textOverlays (join_lines (scriptLines ''Magic Glow Serum'' ''funny''))) =
        (Inr ([], terms), w1) \<and>
      generate (sample_env\<lparr>pexelsSearch := (\<lambda>n q. Inr (Some []))\<rparr>) fresh_world sample_request =
        (Inl (NoVideosFound ''Magic Glow Serum''), w1) \<and>
      \<not> renderer_invoked w1) \<and>
   (\<exists>urls terms w1.
      accumulateAssets sample_env fresh_world ''Magic Glow Serum'' ''funny''
        (textOverlays (join_lines (scriptLines ''Magic Glow Serum'' ''funny''))) =
        (Inr (urls, terms), w1) \<and> urls \<noteq> [] \<and>
      generate sample_env fresh_world sample_request =
        renderStage sample_env w1 sample_request ''Magic Glow Serum''
          (join_lines (scriptLines ''Magic Glow Serum'' ''funny''))
          (textOverlays (join_lines (scriptLines ''Magic Glow Serum'' ''funny''))) urls terms) \<and>
   (\<exists>w1.
      accumulateAssets (sample_env\<lparr>pexelsApiKey := None\<rparr>) fresh_world
        ''Magic Glow Serum'' ''funny''
        (textOverlays (join_lines (scriptLines ''Magic Glow Serum'' ''funny''))) =
        (Inl PexelsKeyMissing, w1) \<and>
      generate (sample_env\<lparr>pexelsApiKey := None\<rparr>) fresh_world sample_request =
        (Inl PexelsKeyMissing, w1))"
proof -
  let ?script = "join_lines (scriptLines ''Magic Glow Serum'' ''funny'')"
  let ?ov = "textOverlays ?script"
  let ?env0 = "sample_env\<lparr>pexelsSearch := (\<lambda>n q. Inr (Some []))\<rparr>"
  let ?nokey = "sample_env\<lparr>pexelsApiKey := None\<rparr>"
  note inst = no_assets_is_fatal_and_skips_renderer [OF sample_mood sample_subject [symmetric]
      refl refl]
  have "\<exists>terms w1. accumulateAssets ?env0 fresh_world ''Magic Glow Serum'' ''funny'' ?ov =
          (Inr ([], terms), w1)"
    by (rule accumulateAssets_no_candidates) (simp_all add: sample_env_def truthy_def)
  then obtain terms0 w0 where a0: "accumulateAssets ?env0 fresh_world ''Magic Glow Serum''
      ''funny'' ?ov = (Inr ([], terms0), w0)"
    by blast
  from inst [of ?env0 fresh_world terms0 w0] a0 fresh_world_quiet(1)
  have p0: "generate ?env0 fresh_world sample_request =
              (Inl (NoVideosFound ''Magic Glow Serum''), w0) \<and> \<not> renderer_invoked w0"
    by blast
  from sample_accumulate [of sample_env] obtain w1 where
    a1: "accumulateAssets sample_env fresh_world ''Magic Glow Serum'' ''funny'' ?ov =
          (Inr (replicate 5 ''https://v.example/2-hd.mp4'',
                replicate 5 ''happy people outdoors''), w1)"
    by (auto simp: sample_env_def)
  have ne: "replicate 5 ''https://v.example/2-hd.mp4'' \<noteq> []" by simp
  from inst [of sample_env fresh_world "replicate 5 ''happy people outdoors''" w1 _
      "replicate 5 ''https://v.example/2-hd.mp4''"] a1 ne
  have p1: "generate sample_env fresh_world sample_request =
      renderStage sample_env w1 sample_request ''Magic Glow Serum'' ?script ?ov
        (replicate 5 ''https://v.example/2-hd.mp4'') (replicate 5 ''happy people outdoors'')"
    by blast
  have "\<exists>w2. accumulateAssets ?nokey fresh_world ''Magic Glow Serum'' ''funny'' ?ov =
          (Inl PexelsKeyMissing, w2)"
    by (rule accumulateAssets_without_key) (simp add: sample_env_def truthy_def)
  then obtain w2 where a2: "accumulateAssets ?nokey fresh_world ''Magic Glow Serum'' ''funny''
      ?ov = (Inl PexelsKeyMissing, w2)"
    by blast
  from inst [of ?nokey fresh_world _ w2 _ _ PexelsKeyMissing] a2
  have p2: "generate ?nokey fresh_world sample_request = (Inl PexelsKeyMissing, w2)"
    by blast
  from a0 p0 a1 ne p1 a2 p2 sample_mood show ?thesis by blast
qed

theorem search_errors_become_none_witness:
  "truthy (pexelsApiKey (sample_env\<lparr>pexelsSearch := (\<lambda>n q. Inl ''Network Error'')\<rparr>)) \<and>
   pexelsSearch (sample_env\<lparr>pexelsSearch := (\<lambda>n q. Inl ''Network Error'')\<rparr>)
     (length (trace fresh_world)) (''Magic Glow Serum'' @ '' '' @ ''glow'') = Inl ''Network Error'' \<and>
   fst (getPexelsVideoForLine (sample_env\<lparr>pexelsSearch := (\<lambda>n q. Inl ''Network Error'')\<rparr>)
          fresh_world ''glow'' ''Magic Glow Serum'') = Inr None \<and>
   pexelsSearch (sample_env\<lparr>pexelsSearch :=
        (\<lambda>n q. if n = 0 then Inr (Some []) else Inl ''timeout'')\<rparr>)
     (Suc (length (trace fresh_world))) ''glow'' = Inl ''timeout'' \<and>
   fst (getPexelsVideoForLine (sample_env\<lparr>pexelsSearch :=
          (\<lambda>n q. if n = 0 then Inr (Some []) else Inl ''timeout'')\<rparr>)
          fresh_world ''glow'' ''Magic Glow Serum'') = Inr None"
proof -
  let ?e1 = "sample_env\<lparr>pexelsSearch := (\<lambda>n q. Inl ''Network Error'')\<rparr>"
  let ?e2 = "sample_env\<lparr>pexelsSearch := (\<lambda>n q. if n = 0 then Inr (Some []) else Inl ''timeout'')\<rparr>"
  have k1: "truthy (pexelsApiKey ?e1)" by (simp add: sample_env_def truthy_def)
  have k2: "truthy (pexelsApiKey ?e2)" by (simp add: sample_env_def truthy_def)
  have s1: "pexelsSearch ?e1 (length (trace fresh_world)) (''Magic Glow Serum'' @ '' '' @ ''glow'')
              = Inl ''Network Error''"
    by simp
  have s2: "pexelsSearch ?e2 (length (trace fresh_world)) (''Magic Glow Serum'' @ '' '' @ ''glow'')
              = Inr (Some [])"
    by (simp add: fresh_world_def)
  have s3: "pexelsSearch ?e2 (Suc (length (trace fresh_world))) ''glow'' = Inl ''timeout''"
    by simp
  from search_errors_become_none [OF k1, of fresh_world "''Magic Glow Serum''" "''glow''"
      "''Network Error''"] s1
  have r1: "fst (getPexelsVideoForLine ?e1 fresh_world ''glow'' ''Magic Glow Serum'') = Inr None"
    by blast
  from search_errors_become_none [OF k2, of fresh_world "''Magic Glow Serum''" "''glow''"
      _ "Some []" "''timeout''"] s2 s3
  have r2: "fst (getPexelsVideoForLine ?e2 fresh_world ''glow'' ''Magic Glow Serum'') = Inr None"
    by blast
  from k1 s1 r1 s3 r2 show ?thesis by blast
qed

theorem missing_subject_defaults_to_amazing_product_witness:
  "\<not> truthy (req_productName (sample_request\<lparr>req_productName := None, req_productUrl := Some ''''\<rparr>)) \<and>
   \<not> truthy (req_productUrl (sample_request\<lparr>req_productName := None, req_productUrl := Some ''''\<rparr>)) \<and>
   finalProductName (sample_request\<lparr>req_productName := None, req_productUrl := Some ''''\<rparr>) =
     ''Amazing Product'' \<and>
   generate sample_env fresh_world
       (sample_request\<lparr>req_productName := None, req_productUrl := Some ''''\<rparr>) =
     generate sample_env fresh_world
       (sample_request\<lparr>req_productName := None, req_productUrl := Some '''',
          req_productName := Some ''Amazing Product''\<rparr>)"
proof -
  let ?req = "sample_request\<lparr>req_productName := None, req_productUrl := Some ''''\<rparr>"
  have a: "\<not> truthy (req_productName ?req)" by (simp add: truthy_def)
  have b: "\<not> truthy (req_productUrl ?req)" by (simp add: truthy_def)
  from missing_subject_defaults_to_amazing_product [OF a b, of sample_env fresh_world] a b
  show ?thesis by blast
qed

end
